theory Spec2Isabelle
  imports Complex_Main "HOL-Library.List_Lexorder" "HOL-Library.Multiset"
begin

section \<open>Python strings\<close>

text \<open>
  A Python \<open>str\<close> is a sequence of Unicode code points; \<open>len\<close>, slicing and
  \<open>strip\<close> count code points, not bytes. A string is therefore a list of code
  points, and an ASCII literal of the source is written \<open>lit ''...''\<close>.
\<close>

type_synonym pystr = "nat list"

definition lit :: "string \<Rightarrow> pystr" where
  "lit s = map of_char s"

text \<open>\<open>sep.join(parts)\<close>\<close>

fun join :: "pystr \<Rightarrow> pystr list \<Rightarrow> pystr" where
  "join sep [] = []"
| "join sep [x] = x"
| "join sep (x # y # ys) = x @ sep @ join sep (y # ys)"

text \<open>
  \<open>str.isspace\<close> on one code point: the code points CPython's
  \<open>_PyUnicode_IsWhitespace\<close> accepts. \<open>str.strip()\<close> without argument removes
  them from both ends.
\<close>

definition isspace :: "nat \<Rightarrow> bool" where
  "isspace c = (c \<in> {0x09, 0x0A, 0x0B, 0x0C, 0x0D, 0x1C, 0x1D, 0x1E, 0x1F, 0x20, 0x85, 0xA0,
      0x1680, 0x2000, 0x2001, 0x2002, 0x2003, 0x2004, 0x2005, 0x2006, 0x2007, 0x2008, 0x2009,
      0x200A, 0x2028, 0x2029, 0x202F, 0x205F, 0x3000})"

definition lstrip :: "pystr \<Rightarrow> pystr" where
  "lstrip s = dropWhile isspace s"

definition rstrip :: "pystr \<Rightarrow> pystr" where
  "rstrip s = rev (dropWhile isspace (rev s))"

definition strip :: "pystr \<Rightarrow> pystr" where
  "strip s = rstrip (lstrip s)"

text \<open>\<open>s.startswith(p)\<close>, \<open>s.endswith(p)\<close> and the substring test \<open>sub in s\<close>.\<close>

definition startswith :: "pystr \<Rightarrow> pystr \<Rightarrow> bool" where
  "startswith p s = (take (length p) s = p)"

definition endswith :: "pystr \<Rightarrow> pystr \<Rightarrow> bool" where
  "endswith p s = (length p \<le> length s \<and> drop (length s - length p) s = p)"

fun contains :: "pystr \<Rightarrow> pystr \<Rightarrow> bool" where
  "contains sub [] = (sub = [])"
| "contains sub (c # cs) = (startswith sub (c # cs) \<or> contains sub cs)"

text \<open>Decimal rendering of integers: \<open>str(n)\<close>, and the format specification \<open>02d\<close>
  (zero-padded to width two; the sign counts towards the width).\<close>

fun str_nat :: "nat \<Rightarrow> pystr" where
  "str_nat n = (if n < 10 then [48 + n] else str_nat (n div 10) @ [48 + n mod 10])"

declare str_nat.simps [simp del]

definition str_int :: "int \<Rightarrow> pystr" where
  "str_int i = (if i < 0 then 45 # str_nat (nat (- i)) else str_nat (nat i))"

definition fmt_02d :: "int \<Rightarrow> pystr" where
  "fmt_02d i = (if 0 \<le> i \<and> i < 10 then 48 # str_int i else str_int i)"

text \<open>
  \<open>text.encode("utf-8")\<close>: surrogate code points cannot be encoded (Python raises
  \<open>UnicodeEncodeError\<close>), which is the result \<open>None\<close>.
\<close>

definition utf8_char :: "nat \<Rightarrow> nat list option" where
  "utf8_char c =
     (if c < 0x80 then Some [c]
      else if c < 0x800 then Some [0xC0 + c div 64, 0x80 + c mod 64]
      else if 0xD800 \<le> c \<and> c \<le> 0xDFFF then None
      else if c < 0x10000 then
        Some [0xE0 + c div 4096, 0x80 + (c div 64) mod 64, 0x80 + c mod 64]
      else if c < 0x110000 then
        Some [0xF0 + c div 262144, 0x80 + (c div 4096) mod 64, 0x80 + (c div 64) mod 64,
              0x80 + c mod 64]
      else None)"

definition utf8_encode :: "pystr \<Rightarrow> nat list option" where
  "utf8_encode s = map_option concat (those (map utf8_char s))"

text \<open>A text that UTF-8 can encode: no code point of it is a surrogate or beyond U+10FFFF.\<close>

definition encodable :: "pystr \<Rightarrow> bool" where
  "encodable s = list_all (\<lambda>c. utf8_char c \<noteq> None) s"

section \<open>Values, exceptions and the world around the server\<close>

text \<open>
  An exception is its class name and the text \<open>str(e)\<close>. The parsed output of the
  metadata probe is any JSON document (floats are kept as the rationals they denote).
  The results the handlers build and hand to \<open>json.dumps\<close> are Python values made
  of booleans, integers, strings, lists and dictionaries in insertion order; the only
  floats among them are \<open>round(size / 1024, 1)\<close>, kept as a number of tenths.
\<close>

datatype exn = Exn (exn_class: string) (exn_str: pystr)

datatype json =
    JNull
  | JBool bool
  | JInt int
  | JFloat rat
  | JStr pystr
  | JArr "json list"
  | JObj "(pystr \<times> json) list"

datatype pyval =
    VBool bool
  | VInt int
  | VTenths nat
  | VStr pystr
  | VList "pyval list"
  | VDict "(pystr \<times> pyval) list"

text \<open>The outcome of \<open>subprocess.run\<close>: a completed process with its return code and
  standard output, or an exception (\<open>TimeoutExpired\<close>, a failure to spawn).\<close>

datatype run_result = Completed int pystr | Aborted exn

record video_info =
  info_title :: json
  info_duration :: json
  info_uploader :: json

text \<open>A segment of the transcription; the engine's times are finite floats, kept as the
  rationals they denote.\<close>

record segment =
  seg_start :: rat
  seg_end :: rat
  seg_text :: pystr

text \<open>
  An entry of the temp directory, in the order a directory scan yields them. \<open>present\<close>
  is what \<open>Path.exists()\<close> answers (false for a dangling link), \<open>removable\<close> whether
  \<open>unlink\<close> succeeds on it.
\<close>

record temp_entry =
  ename :: pystr
  present :: bool
  removable :: bool

text \<open>A file of the transcript directory: its name, its bytes and its modification time.\<close>

record tfile =
  fname :: pystr
  body :: "nat list"
  mtime :: nat

text \<open>The calls made to the external collaborators and to the transcript store, in order.\<close>

datatype event =
    Probe pystr
  | Download pystr pystr
  | Transcribe pystr "pystr option"
  | Write pystr

record state =
  temp_dir :: "temp_entry list"
  store :: "tfile list"
  whisper_model :: bool
  log :: "event list"

text \<open>
  Everything the server reads from outside itself: configuration (\<open>DEFAULT_LANGUAGE\<close>,
  \<open>TRANSCRIPTS_DIR\<close>, \<open>TEMP_DIR\<close>), the clock readings \<open>datetime.now().strftime(...)\<close>
  at the three places the source takes them, the Unicode case table behind \<open>str.lower\<close>,
  the two modes of the downloader, \<open>json.loads\<close>, the speech engine and its loader,
  the path operations of the file flow, the exceptions the interpreter raises on a
  value of the wrong type, and what opening a transcript file for writing meets: the
  longest file name the system takes (\<open>name_max\<close>, in bytes), the answer of the system
  to opening a name it takes (\<open>os_open\<close>: an \<open>OSError\<close> for a missing or unwritable
  directory and the like, or \<open>None\<close> when the file is created or emptied), and the
  exceptions \<open>open\<close> raises, by their class. \<open>float_timestamp\<close> is what
  \<open>format_timestamp\<close> prints for a float on which the float operations round.
\<close>

record env =
  default_language :: pystr
  transcripts_dir :: pystr
  temp_dir_path :: pystr
  now_temp :: pystr
  now_file :: pystr
  now_header :: pystr
  now_epoch :: nat
  fmt_mtime :: "nat \<Rightarrow> pystr"
  str_lower :: "pystr \<Rightarrow> pystr"
  probe :: "pystr \<Rightarrow> run_result"
  json_loads :: "pystr \<Rightarrow> exn + json"
  downloader :: "pystr \<Rightarrow> pystr \<Rightarrow> temp_entry list \<Rightarrow> run_result \<times> temp_entry list"
  load_model :: "exn option"
  engine :: "pystr \<Rightarrow> pystr option \<Rightarrow> exn + segment list"
  expanduser :: "pystr \<Rightarrow> exn + pystr"
  path_exists :: "pystr \<Rightarrow> bool"
  path_stem :: "pystr \<Rightarrow> pystr"
  type_error :: "string \<Rightarrow> json \<Rightarrow> exn"
  encode_error :: "pystr \<Rightarrow> exn"
  name_max :: nat
  os_open :: "pystr \<Rightarrow> exn option"
  open_error :: "string \<Rightarrow> pystr \<Rightarrow> exn"
  float_timestamp :: "rat \<Rightarrow> pystr"

text \<open>\<open>str(directory / name)\<close> for a directory given by its string and a plain name.\<close>

definition path_join :: "pystr \<Rightarrow> pystr \<Rightarrow> pystr" where
  "path_join d n =
     (if d = lit ''.'' then n
      else if endswith (lit ''/'') d then d @ n
      else d @ lit ''/'' @ n)"

section \<open>Naming and formatting utilities\<close>

text \<open>
  The character class of the substitution in \<open>sanitize_filename\<close> holds nine
  characters: less-than, greater-than, colon, double quote, slash, backslash (written
  doubled inside the class), vertical bar, question mark and asterisk. Every occurrence
  is replaced by the empty string, then the first 100 code points are kept and stripped.
\<close>

definition invalid_chars :: "nat set" where
  "invalid_chars = {0x3C, 0x3E, 0x3A, 0x22, 0x2F, 0x5C, 0x7C, 0x3F, 0x2A}"

definition sanitize_filename :: "pystr \<Rightarrow> pystr" where
  "sanitize_filename name =
     (let name = filter (\<lambda>c. c \<notin> invalid_chars) name
      in strip (take 100 name))"

definition detect_platform :: "env \<Rightarrow> pystr \<Rightarrow> pystr" where
  "detect_platform env url =
     (let url_lower = str_lower env url in
      if contains (lit ''youtube.com'') url_lower \<or> contains (lit ''youtu.be'') url_lower
        then lit ''YouTube''
      else if contains (lit ''instagram.com'') url_lower then lit ''Instagram''
      else if contains (lit ''vk.com'') url_lower \<or> contains (lit ''vkvideo'') url_lower
        then lit ''VK''
      else if contains (lit ''rutube.ru'') url_lower then lit ''Rutube''
      else if contains (lit ''tiktok.com'') url_lower then lit ''TikTok''
      else lit ''Video'')"

text \<open>
  \<open>format_timestamp\<close> takes a float. On a finite float from 0 up to \<open>2 ^ 53\<close> the
  operations \<open>x // y\<close> and \<open>x % y\<close> are exact: the floor of the quotient and the
  matching remainder, and \<open>int\<close> of a floored value is that integer. On a negative float
  or one from \<open>2 ^ 53\<close> on they round, and what is printed is left to the environment.
\<close>

definition fmod :: "rat \<Rightarrow> rat \<Rightarrow> rat" where
  "fmod x y = x - y * of_int \<lfloor>x / y\<rfloor>"

definition format_timestamp :: "env \<Rightarrow> rat \<Rightarrow> pystr" where
  "format_timestamp env seconds =
     (if 0 \<le> seconds \<and> seconds < 2 ^ 53 then
        (let hours = \<lfloor>seconds / 3600\<rfloor>;
             minutes = \<lfloor>fmod seconds 3600 / 60\<rfloor>;
             secs = \<lfloor>fmod seconds 60\<rfloor>
         in if hours > 0
            then lit ''['' @ fmt_02d hours @ lit '':'' @ fmt_02d minutes @ lit '':''
                 @ fmt_02d secs @ lit '']''
            else lit ''['' @ fmt_02d minutes @ lit '':'' @ fmt_02d secs @ lit '']'')
      else float_timestamp env seconds)"

definition format_duration :: "int \<Rightarrow> pystr" where
  "format_duration seconds =
     (let hours = seconds div 3600;
          minutes = (seconds mod 3600) div 60;
          secs = seconds mod 60
      in if hours > 0
         then str_int hours @ lit '':'' @ fmt_02d minutes @ lit '':'' @ fmt_02d secs
         else str_int minutes @ lit '':'' @ fmt_02d secs)"

section \<open>Metadata probe and audio acquisition\<close>

text \<open>\<open>d.get(key, default)\<close> on a dictionary.\<close>

definition dict_get :: "(pystr \<times> 'v) list \<Rightarrow> pystr \<Rightarrow> 'v \<Rightarrow> 'v" where
  "dict_get d k dflt = (case map_of d k of None \<Rightarrow> dflt | Some v \<Rightarrow> v)"

definition default_info :: video_info where
  "default_info = \<lparr>info_title = JStr (lit ''Unknown''), info_duration = JInt 0,
                    info_uploader = JStr (lit ''Unknown'')\<rparr>"

text \<open>
  Every exception inside the \<open>try\<close> of \<open>get_video_info\<close> (from \<open>subprocess.run\<close>,
  from \<open>json.loads\<close>, from \<open>info.get\<close> on a document that is no dictionary) is
  caught, and control falls through to the final \<open>return\<close>.
\<close>

definition get_video_info :: "env \<Rightarrow> state \<Rightarrow> pystr \<Rightarrow> video_info \<times> state" where
  "get_video_info env st url =
     (let st' = st\<lparr>log := log st @ [Probe url]\<rparr> in
      case probe env url of
        Aborted e \<Rightarrow> (default_info, st')
      | Completed returncode out \<Rightarrow>
          if returncode = 0 then
            (case json_loads env out of
               Inl e \<Rightarrow> (default_info, st')
             | Inr info \<Rightarrow>
                 (case info of
                    JObj d \<Rightarrow>
                      (\<lparr>info_title = dict_get d (lit ''title'') (JStr (lit ''Unknown'')),
                        info_duration = dict_get d (lit ''duration'') (JInt 0),
                        info_uploader = dict_get d (lit ''uploader'') (JStr (lit ''Unknown''))\<rparr>, st')
                  | _ \<Rightarrow> (default_info, st')))
          else (default_info, st'))"

text \<open>The downloader may create, rename or leave files in the temp directory whatever
  its outcome; \<open>download_audio\<close> reports only whether it exited with status 0.\<close>

definition download_audio :: "env \<Rightarrow> state \<Rightarrow> pystr \<Rightarrow> pystr \<Rightarrow> bool \<times> state" where
  "download_audio env st url output_path =
     (case downloader env url output_path (temp_dir st) of
        (r, d) \<Rightarrow>
          (case r of Completed returncode out \<Rightarrow> returncode = 0 | Aborted e \<Rightarrow> False,
           st\<lparr>temp_dir := d, log := log st @ [Download url output_path]\<rparr>))"

section \<open>Transcription engine adapter\<close>

definition get_whisper_model :: "env \<Rightarrow> state \<Rightarrow> (exn + unit) \<times> state" where
  "get_whisper_model env st =
     (if \<not> whisper_model st then
        (case load_model env of
           Some e \<Rightarrow> (Inl e, st)
         | None \<Rightarrow> (Inr (), st\<lparr>whisper_model := True\<rparr>))
      else (Inr (), st))"

definition transcribe_audio ::
  "env \<Rightarrow> state \<Rightarrow> pystr \<Rightarrow> pystr \<Rightarrow> (exn + segment list) \<times> state" where
  "transcribe_audio env st audio_path language =
     (case get_whisper_model env st of
        (Inl e, st1) \<Rightarrow> (Inl e, st1)
      | (Inr u, st1) \<Rightarrow>
          (let lang = (if language \<noteq> lit ''auto'' then Some language else None);
               st2 = st1\<lparr>log := log st1 @ [Transcribe audio_path lang]\<rparr>
           in case engine env audio_path lang of
                Inl e \<Rightarrow> (Inl e, st2)
              | Inr segments \<Rightarrow>
                  (Inr (map (\<lambda>segment. \<lparr>seg_start = seg_start segment, seg_end = seg_end segment,
                                         seg_text = strip (seg_text segment)\<rparr>) segments), st2)))"

section \<open>Transcript store\<close>

fun put_file :: "tfile \<Rightarrow> tfile list \<Rightarrow> tfile list" where
  "put_file f [] = [f]"
| "put_file f (g # gs) = (if fname g = fname f then f # gs else g # put_file f gs)"

text \<open>
  \<open>os.fsencode\<close> of a file name: UTF-8 in which the surrogates U+DC80 to U+DCFF stand
  for the bytes 0x80 to 0xFF; any other surrogate cannot be encoded.
\<close>

definition fs_char :: "nat \<Rightarrow> nat list option" where
  "fs_char c = (if 0xDC80 \<le> c \<and> c \<le> 0xDCFF then Some [c - 0xDC00] else utf8_char c)"

definition fsencode :: "pystr \<Rightarrow> nat list option" where
  "fsencode s = map_option concat (those (map fs_char s))"

text \<open>
  Opening a file of the transcript directory for writing. The name is encoded first
  (\<open>UnicodeEncodeError\<close> when it cannot be), a NUL byte in it is refused
  (\<open>ValueError\<close>), a name longer than the system takes is refused by the system
  (\<open>OSError\<close>), and otherwise the system answers. \<open>None\<close> means the file is open, created
  or emptied; in every other case nothing is written.
\<close>

definition open_write :: "env \<Rightarrow> pystr \<Rightarrow> exn option" where
  "open_write env name =
     (case fsencode name of
        None \<Rightarrow> Some (open_error env ''UnicodeEncodeError'' name)
      | Some b \<Rightarrow>
          if 0 \<in> set b then Some (open_error env ''ValueError'' name)
          else if name_max env < length b then Some (open_error env ''OSError'' name)
          else os_open env name)"

text \<open>
  \<open>Path.write_text(data, encoding="utf-8")\<close> opens the file for writing, which creates
  or empties it, and then writes the encoded text; when the text cannot be encoded the
  exception leaves the emptied file behind. When the file cannot be opened the exception
  of \<open>open\<close> is raised and the directory is as before. Line ends are written as they
  are (a POSIX system).
\<close>

definition write_text :: "env \<Rightarrow> state \<Rightarrow> pystr \<Rightarrow> pystr \<Rightarrow> (exn + unit) \<times> state" where
  "write_text env st name data =
     (let st' = st\<lparr>log := log st @ [Write name]\<rparr> in
      case open_write env name of
        Some e \<Rightarrow> (Inl e, st')
      | None \<Rightarrow>
          (case utf8_encode data of
             None \<Rightarrow>
               (Inl (encode_error env data),
                st'\<lparr>store := put_file \<lparr>fname = name, body = [], mtime = now_epoch env\<rparr>
                                  (store st)\<rparr>)
           | Some bytes \<Rightarrow>
               (Inr (),
                st'\<lparr>store := put_file \<lparr>fname = name, body = bytes, mtime = now_epoch env\<rparr>
                                  (store st)\<rparr>)))"

definition rule50 :: pystr where
  "rule50 = replicate 50 0x3D"

definition segment_line :: "env \<Rightarrow> segment \<Rightarrow> pystr" where
  "segment_line env seg = format_timestamp env (seg_start seg) @ lit '' '' @ seg_text seg"

definition full_text :: "segment list \<Rightarrow> pystr" where
  "full_text segments = join (lit '' '') (map seg_text segments)"

text \<open>The lines of a transcript, as \<open>save_transcript\<close> builds them: the header with its
  Russian labels (given by their code points), one line per segment, the trailer.\<close>

definition transcript_lines ::
  "env \<Rightarrow> pystr \<Rightarrow> pystr \<Rightarrow> pystr \<Rightarrow> int \<Rightarrow> segment list \<Rightarrow> pystr \<Rightarrow> pystr list" where
  "transcript_lines env url platform title duration segments language =
     [ [0x418, 0x441, 0x442, 0x43E, 0x447, 0x43D, 0x438, 0x43A, 0x3A, 0x20] @ url,
       [0x41F, 0x43B, 0x430, 0x442, 0x444, 0x43E, 0x440, 0x43C, 0x430, 0x3A, 0x20] @ platform,
       [0x41D, 0x430, 0x437, 0x432, 0x430, 0x43D, 0x438, 0x435, 0x3A, 0x20] @ title,
       [0x414, 0x430, 0x442, 0x430, 0x20, 0x442, 0x440, 0x430, 0x43D, 0x441, 0x43A, 0x440, 0x438,
        0x43F, 0x446, 0x438, 0x438, 0x3A, 0x20] @ now_header env,
       [0x414, 0x43B, 0x438, 0x442, 0x435, 0x43B, 0x44C, 0x43D, 0x43E, 0x441, 0x442, 0x44C, 0x3A,
        0x20] @ format_duration duration,
       [0x42F, 0x437, 0x44B, 0x43A, 0x3A, 0x20] @ language,
       [],
       rule50,
       [] ]
     @ map (segment_line env) segments
     @ [ [],
         rule50,
         [0x41F, 0x41E, 0x41B, 0x41D, 0x42B, 0x419, 0x20, 0x422, 0x415, 0x41A, 0x421, 0x422, 0x20,
          0x28, 0x431, 0x435, 0x437, 0x20, 0x442, 0x430, 0x439, 0x43C, 0x43A, 0x43E, 0x434, 0x43E,
          0x432, 0x29, 0x3A],
         rule50,
         [],
         full_text segments ]"

definition save_transcript ::
  "env \<Rightarrow> state \<Rightarrow> pystr \<Rightarrow> pystr \<Rightarrow> pystr \<Rightarrow> int \<Rightarrow> segment list \<Rightarrow> pystr
     \<Rightarrow> (exn + pystr) \<times> state" where
  "save_transcript env st url platform title duration segments language =
     (let date_str = now_file env;
          safe_title = sanitize_filename title;
          filename = date_str @ lit ''_'' @ platform @ lit ''_'' @ safe_title @ lit ''.txt'';
          filepath = path_join (transcripts_dir env) filename;
          lines = transcript_lines env url platform title duration segments language
      in case write_text env st filename (join [0x0A] lines) of
           (Inl e, st') \<Rightarrow> (Inl e, st')
         | (Inr u, st') \<Rightarrow> (Inr filepath, st'))"

section \<open>Pipeline orchestrator\<close>

definition error_result :: "pystr \<Rightarrow> pyval" where
  "error_result msg = VDict [(lit ''error'', VStr msg)]"

text \<open>\<open>language or DEFAULT_LANGUAGE\<close>: an absent or empty language is falsy.\<close>

definition resolve_language :: "env \<Rightarrow> pystr option \<Rightarrow> pystr" where
  "resolve_language env language =
     (case language of
        None \<Rightarrow> default_language env
      | Some l \<Rightarrow> if l = [] then default_language env else l)"

text \<open>The names the three glob patterns of the source accept: \<open>audio_*.mp3\<close>,
  \<open>audio_*\<close> and \<open>*.txt\<close>.\<close>

definition matches_audio_mp3 :: "pystr \<Rightarrow> bool" where
  "matches_audio_mp3 n =
     (startswith (lit ''audio_'') n \<and> endswith (lit ''.mp3'') n \<and> 10 \<le> length n)"

definition matches_audio :: "pystr \<Rightarrow> bool" where
  "matches_audio n = startswith (lit ''audio_'') n"

definition matches_txt :: "pystr \<Rightarrow> bool" where
  "matches_txt n = endswith (lit ''.txt'') n"

text \<open>The test \<open>not actual_file or not actual_file.exists()\<close> of the URL flow, on
  the temp directory as the downloader left it: no name matches \<open>audio_*.mp3\<close>, or
  the first match of the scan does not exist.\<close>

definition artifact_missing :: "temp_entry list \<Rightarrow> bool" where
  "artifact_missing d =
     (case filter (\<lambda>f. matches_audio_mp3 (ename f)) d of [] \<Rightarrow> True | f # fs \<Rightarrow> \<not> present f)"

text \<open>\<open>f.unlink()\<close> on an entry of the temp directory; \<open>None\<close> when it raises.\<close>

definition unlink :: "temp_entry \<Rightarrow> temp_entry list \<Rightarrow> temp_entry list option" where
  "unlink f d = (if removable f then Some (filter (\<lambda>g. ename g \<noteq> ename f) d) else None)"

text \<open>The \<open>finally\<close> block: every entry matching \<open>audio_*\<close> is unlinked, and an
  exception of \<open>unlink\<close> is passed over.\<close>

definition cleanup_temp :: "state \<Rightarrow> state" where
  "cleanup_temp st =
     fold (\<lambda>f s. case unlink f (temp_dir s) of
                    None \<Rightarrow> s
                  | Some d \<Rightarrow> s\<lparr>temp_dir := d\<rparr>)
          (filter (\<lambda>f. matches_audio (ename f)) (temp_dir st)) st"

text \<open>
  What Python's arithmetic and \<open>:02d\<close> accept as the integer \<open>seconds\<close> of
  \<open>format_duration\<close>: an integer or a boolean. Any other value raises there.
\<close>

definition as_int :: "json \<Rightarrow> int option" where
  "as_int v = (case v of JInt i \<Rightarrow> Some i | JBool b \<Rightarrow> Some (if b then 1 else 0) | _ \<Rightarrow> None)"

text \<open>
  The body of the \<open>try\<close> of \<open>handle_transcribe_url\<close>. \<open>save_transcript\<close> is reached
  with the title and duration of the probe as they are: a title that is no string raises
  in \<open>sanitize_filename\<close>, a duration that is no integer raises in \<open>format_duration\<close>,
  both before anything is written.
\<close>

definition transcribe_url_body ::
  "env \<Rightarrow> state \<Rightarrow> pystr \<Rightarrow> pystr \<Rightarrow> pystr \<Rightarrow> json \<Rightarrow> json \<Rightarrow> pystr
     \<Rightarrow> (exn + pyval) \<times> state" where
  "transcribe_url_body env st url language platform title duration temp_audio =
     (case download_audio env st url temp_audio of
        (ok, st1) \<Rightarrow>
          if \<not> ok then
            (Inr (error_result (lit ''Failed to download audio from '' @ url
                                @ lit ''. Make sure the video is public.'')), st1)
          else
            (let actual_file =
                   (case filter (\<lambda>f. matches_audio_mp3 (ename f)) (temp_dir st1) of
                      [] \<Rightarrow> None
                    | f # fs \<Rightarrow> Some f)
             in case actual_file of
                  None \<Rightarrow> (Inr (error_result (lit ''Audio file not found after download'')), st1)
                | Some f \<Rightarrow>
                    if \<not> present f then
                      (Inr (error_result (lit ''Audio file not found after download'')), st1)
                    else
                      (case transcribe_audio env st1 (path_join (temp_dir_path env) (ename f))
                              language of
                         (Inl e, st2) \<Rightarrow> (Inl e, st2)
                       | (Inr segments, st2) \<Rightarrow>
                           if segments = [] then
                             (Inr (error_result (lit ''No speech detected in the video'')), st2)
                           else
                             (case title of
                                JStr t \<Rightarrow>
                                  (case as_int duration of
                                     None \<Rightarrow> (Inl (type_error env ''format_duration'' duration), st2)
                                   | Some d \<Rightarrow>
                                       (case save_transcript env st2 url platform t d segments
                                               language of
                                          (Inl e, st3) \<Rightarrow> (Inl e, st3)
                                        | (Inr filepath, st3) \<Rightarrow>
                                            (Inr (VDict
                                               [(lit ''success'', VBool True),
                                                (lit ''platform'', VStr platform),
                                                (lit ''title'', VStr t),
                                                (lit ''duration'', VStr (format_duration d)),
                                                (lit ''language'', VStr language),
                                                (lit ''segments_count'',
                                                   VInt (int (length segments))),
                                                (lit ''saved_to'', VStr filepath),
                                                (lit ''transcript'', VStr (full_text segments))]),
                                             st3)))
                              | _ \<Rightarrow> (Inl (type_error env ''sanitize_filename'' title), st2)))))"

text \<open>The temp path of a job: \<open>TEMP_DIR / "audio_<timestamp>.mp3"\<close>.\<close>

definition temp_audio_path :: "env \<Rightarrow> pystr" where
  "temp_audio_path env = path_join (temp_dir_path env) (lit ''audio_'' @ now_temp env @ lit ''.mp3'')"

text \<open>\<open>handle_transcribe_url\<close> up to its \<open>finally\<close> block: the statements before the
  \<open>try\<close> and the body of the \<open>try\<close>, with the result returned or the exception
  raised there.\<close>

definition transcribe_url_run ::
  "env \<Rightarrow> state \<Rightarrow> pystr \<Rightarrow> pystr option \<Rightarrow> (exn + pyval) \<times> state" where
  "transcribe_url_run env st url language =
     (let language = resolve_language env language;
          platform = detect_platform env url
      in case get_video_info env st url of
           (info, st0) \<Rightarrow>
             (let title = info_title info;
                  duration = info_duration info;
                  temp_audio = temp_audio_path env
              in transcribe_url_body env st0 url language platform title duration temp_audio))"

text \<open>The \<open>finally\<close> block runs on every way out of the \<open>try\<close>, and the result or the
  exception of the \<open>try\<close> is then delivered.\<close>

definition handle_transcribe_url ::
  "env \<Rightarrow> state \<Rightarrow> pystr \<Rightarrow> pystr option \<Rightarrow> (exn + pyval) \<times> state" where
  "handle_transcribe_url env st url language =
     (case transcribe_url_run env st url language of
        (r, st') \<Rightarrow> (r, cleanup_temp st'))"

text \<open>\<open>int(x)\<close> on a float truncates towards zero.\<close>

definition py_int :: "rat \<Rightarrow> int" where
  "py_int x = (if x < 0 then \<lceil>x\<rceil> else \<lfloor>x\<rfloor>)"

definition handle_transcribe_file ::
  "env \<Rightarrow> state \<Rightarrow> pystr \<Rightarrow> pystr option \<Rightarrow> (exn + pyval) \<times> state" where
  "handle_transcribe_file env st file_path language =
     (let language = resolve_language env language in
      case expanduser env file_path of
        Inl e \<Rightarrow> (Inl e, st)
      | Inr path \<Rightarrow>
          if \<not> path_exists env path then
            (Inr (error_result (lit ''File not found: '' @ file_path)), st)
          else
            (case transcribe_audio env st path language of
               (Inl e, st1) \<Rightarrow> (Inl e, st1)
             | (Inr segments, st1) \<Rightarrow>
                 if segments = [] then
                   (Inr (error_result (lit ''No speech detected in the file'')), st1)
                 else
                   (let duration = py_int (seg_end (last segments)) in
                    case save_transcript env st1 (lit ''file://'' @ path) (lit ''LocalFile'')
                           (path_stem env path) duration segments language of
                      (Inl e, st2) \<Rightarrow> (Inl e, st2)
                    | (Inr filepath, st2) \<Rightarrow>
                        (Inr (VDict
                           [(lit ''success'', VBool True),
                            (lit ''file'', VStr path),
                            (lit ''duration'', VStr (format_duration duration)),
                            (lit ''language'', VStr language),
                            (lit ''segments_count'', VInt (int (length segments))),
                            (lit ''saved_to'', VStr filepath),
                            (lit ''transcript'', VStr (full_text segments))]),
                         st2))))"

section \<open>Listing the store\<close>

text \<open>\<open>xs[:n]\<close>: a negative bound counts from the end.\<close>

definition slice_to :: "int \<Rightarrow> 'a list \<Rightarrow> 'a list" where
  "slice_to n xs = (if n < 0 then take (nat (int (length xs) + n)) xs else take (nat n) xs)"

text \<open>
  \<open>sorted(paths, reverse=True)\<close>: paths of one directory compare by their names, code
  point by code point; the reversed sort keeps equal elements in their original order.
\<close>

definition sorted_reverse :: "tfile list \<Rightarrow> tfile list" where
  "sorted_reverse fs = rev (sort_key fname (rev fs))"

text \<open>
  \<open>round(st_size / 1024, 1)\<close> in tenths. The quotient is exact; the rounding is to the
  nearest tenth, an exact tie going to the even neighbour.
\<close>

definition size_kb_tenths :: "nat \<Rightarrow> nat" where
  "size_kb_tenths st_size =
     (let q = (st_size * 10) div 1024; r = (st_size * 10) mod 1024
      in if r < 512 then q else if r > 512 then q + 1 else if even q then q else q + 1)"

definition transcript_entry :: "env \<Rightarrow> tfile \<Rightarrow> pyval" where
  "transcript_entry env f =
     VDict [(lit ''filename'', VStr (fname f)),
            (lit ''path'', VStr (path_join (transcripts_dir env) (fname f))),
            (lit ''size_kb'', VTenths (size_kb_tenths (length (body f)))),
            (lit ''modified'', VStr (fmt_mtime env (mtime f)))]"

definition handle_list_transcripts :: "env \<Rightarrow> state \<Rightarrow> int \<Rightarrow> pyval" where
  "handle_list_transcripts env st limit =
     (let files = slice_to limit (sorted_reverse (filter (\<lambda>f. matches_txt (fname f)) (store st)));
          transcripts = map (transcript_entry env) files
      in VDict [(lit ''transcripts_dir'', VStr (transcripts_dir env)),
                (lit ''count'', VInt (int (length transcripts))),
                (lit ''files'', VList transcripts)])"


section \<open>Tool dispatch layer\<close>

text \<open>
  \<open>json.dumps(value, indent=2, ensure_ascii=...)\<close>. A string is written between double
  quotes; the quote, the backslash and the control characters below U+0020 are always
  escaped. With \<open>ensure_ascii\<close> every code point outside the printable ASCII range
  is written as \<open>\uXXXX\<close> (as a surrogate pair above U+FFFF); without it such a code
  point is written as it is.
\<close>

definition hexdigit :: "nat \<Rightarrow> nat" where
  "hexdigit d = (if d < 10 then 48 + d else 87 + d)"

definition u_escape :: "nat \<Rightarrow> pystr" where
  "u_escape n =
     [0x5C, 0x75, hexdigit (n div 4096 mod 16), hexdigit (n div 256 mod 16),
      hexdigit (n div 16 mod 16), hexdigit (n mod 16)]"

definition escape_char :: "bool \<Rightarrow> nat \<Rightarrow> pystr" where
  "escape_char ensure_ascii c =
     (if c = 0x22 then [0x5C, 0x22]
      else if c = 0x5C then [0x5C, 0x5C]
      else if c = 0x0A then [0x5C, 0x6E]
      else if c = 0x0D then [0x5C, 0x72]
      else if c = 0x09 then [0x5C, 0x74]
      else if c = 0x08 then [0x5C, 0x62]
      else if c = 0x0C then [0x5C, 0x66]
      else if c < 0x20 then u_escape c
      else if ensure_ascii \<and> 0x7E < c then
        (if c < 0x10000 then u_escape c
         else u_escape (0xD800 + ((c - 0x10000) div 1024) mod 1024)
              @ u_escape (0xDC00 + (c - 0x10000) mod 1024))
      else [c])"

definition encode_str :: "bool \<Rightarrow> pystr \<Rightarrow> pystr" where
  "encode_str ensure_ascii s = [0x22] @ concat (map (escape_char ensure_ascii) s) @ [0x22]"

definition newline_indent :: "nat \<Rightarrow> pystr" where
  "newline_indent level = 0x0A # replicate (2 * level) 0x20"

fun dumps :: "bool \<Rightarrow> nat \<Rightarrow> pyval \<Rightarrow> pystr" where
  "dumps ea level (VBool b) = (if b then lit ''true'' else lit ''false'')"
| "dumps ea level (VInt i) = str_int i"
| "dumps ea level (VTenths k) = str_nat (k div 10) @ lit ''.'' @ str_nat (k mod 10)"
| "dumps ea level (VStr s) = encode_str ea s"
| "dumps ea level (VList xs) =
     (if xs = [] then lit ''[]''
      else lit ''['' @ newline_indent (Suc level)
           @ join (lit '','' @ newline_indent (Suc level)) (map (dumps ea (Suc level)) xs)
           @ newline_indent level @ lit '']'')"
| "dumps ea level (VDict kvs) =
     (if kvs = [] then lit ''{}''
      else lit ''{'' @ newline_indent (Suc level)
           @ join (lit '','' @ newline_indent (Suc level))
               (map (\<lambda>kv. encode_str ea (fst kv) @ lit '': '' @ dumps ea (Suc level) (snd kv)) kvs)
           @ newline_indent level @ lit ''}'')"

definition json_dumps :: "bool \<Rightarrow> pyval \<Rightarrow> pystr" where
  "json_dumps ensure_ascii v = dumps ensure_ascii 0 v"

text \<open>
  The arguments of a tool call, typed as the input schemas of \<open>TOOLS\<close> declare them;
  a field is \<open>None\<close> when the key is absent.
\<close>

record arguments =
  arg_url :: "pystr option"
  arg_file_path :: "pystr option"
  arg_language :: "pystr option"
  arg_limit :: "int option"

text \<open>\<open>str(KeyError(key))\<close> is the key between single quotes.\<close>

definition key_error :: "pystr \<Rightarrow> exn" where
  "key_error k = Exn ''KeyError'' ([0x27] @ k @ [0x27])"

text \<open>The \<open>try\<close> of \<open>handle_tool_call\<close> up to the result of the handler.\<close>

definition call_handler ::
  "env \<Rightarrow> state \<Rightarrow> pystr \<Rightarrow> arguments \<Rightarrow> (exn + pyval) \<times> state" where
  "call_handler env st name args =
     (if name = lit ''transcribe_url'' then
        (case arg_url args of
           None \<Rightarrow> (Inl (key_error (lit ''url'')), st)
         | Some url \<Rightarrow> handle_transcribe_url env st url (arg_language args))
      else if name = lit ''transcribe_file'' then
        (case arg_file_path args of
           None \<Rightarrow> (Inl (key_error (lit ''file_path'')), st)
         | Some file_path \<Rightarrow> handle_transcribe_file env st file_path (arg_language args))
      else if name = lit ''list_transcripts'' then
        (Inr (handle_list_transcripts env st
                (case arg_limit args of None \<Rightarrow> 20 | Some limit \<Rightarrow> limit)), st)
      else (Inr (error_result (lit ''Unknown tool: '' @ name)), st))"

definition handle_tool_call :: "env \<Rightarrow> state \<Rightarrow> pystr \<Rightarrow> arguments \<Rightarrow> pystr \<times> state" where
  "handle_tool_call env st name args =
     (case call_handler env st name args of
        (Inr result, st') \<Rightarrow> (json_dumps False result, st')
      | (Inl e, st') \<Rightarrow> (json_dumps True (error_result (exn_str e)), st'))"

section \<open>A concrete world\<close>

text \<open>
  One environment and one state on which the definitions can be run: the probe times out,
  the downloader exits with status 0 and leaves the job's file in the temp directory, the
  engine hears two segments, and no local path exists.
\<close>

definition example_segments :: "segment list" where
  "example_segments =
     [\<lparr>seg_start = 0, seg_end = 5 / 2, seg_text = lit '' Hello ''\<rparr>,
      \<lparr>seg_start = 65, seg_end = 70, seg_text = lit ''world''\<rparr>]"

definition example_env :: env where
  "example_env =
     \<lparr>default_language = lit ''ru'',
      transcripts_dir = lit ''/home/u/Documents/Transcripts'',
      temp_dir_path = lit ''/srv/app/temp'',
      now_temp = lit ''20240101_120000'',
      now_file = lit ''2024-01-01_1200'',
      now_header = lit ''2024-01-01 12:00'',
      now_epoch = 1704110400,
      fmt_mtime = (\<lambda>t. lit ''2024-01-01 12:00''),
      str_lower = (\<lambda>s. s),
      probe = (\<lambda>url. Aborted (Exn ''TimeoutExpired'' (lit ''timed out''))),
      json_loads = (\<lambda>out. Inl (Exn ''JSONDecodeError'' (lit ''Expecting value''))),
      downloader = (\<lambda>url path d.
         (Completed 0 [],
          d @ [\<lparr>ename = lit ''audio_20240101_120000.mp3'', present = True, removable = True\<rparr>])),
      load_model = None,
      engine = (\<lambda>path language. Inr example_segments),
      expanduser = (\<lambda>p. Inr p),
      path_exists = (\<lambda>p. False),
      path_stem = (\<lambda>p. lit ''talk''),
      type_error = (\<lambda>site v. Exn ''TypeError'' (lit ''unsupported operand'')),
      encode_error = (\<lambda>s. Exn ''UnicodeEncodeError'' (lit ''surrogates not allowed'')),
      name_max = 255,
      os_open = (\<lambda>name. None),
      open_error = (\<lambda>cls name. Exn cls (lit ''cannot open file'')),
      float_timestamp = (\<lambda>x. lit ''[60:60]'')\<rparr>"

definition example_state :: state where
  "example_state =
     \<lparr>temp_dir =
        [\<lparr>ename = lit ''audio_old.part'', present = True, removable = False\<rparr>,
         \<lparr>ename = lit ''notes.md'', present = True, removable = True\<rparr>],
      store = [],
      whisper_model = False,
      log = []\<rparr>"

definition example_url :: pystr where
  "example_url = lit ''https://youtu.be/abc''"

text \<open>A transcript directory with five transcripts and one other file, in the order a
  directory scan might yield them.\<close>

definition example_store :: "tfile list" where
  "example_store =
     [\<lparr>fname = lit ''c.txt'', body = replicate 256 0x41, mtime = 3\<rparr>,
      \<lparr>fname = lit ''a.txt'', body = [], mtime = 1\<rparr>,
      \<lparr>fname = lit ''notes.md'', body = [0x41], mtime = 9\<rparr>,
      \<lparr>fname = lit ''e.txt'', body = replicate 1536 0x41, mtime = 5\<rparr>,
      \<lparr>fname = lit ''b.txt'', body = [0x41, 0x42], mtime = 2\<rparr>,
      \<lparr>fname = lit ''d.txt'', body = replicate 100 0x41, mtime = 4\<rparr>]"

text \<open>A downloader that times out and leaves a partial file behind.\<close>

definition failing_downloader :: "pystr \<Rightarrow> pystr \<Rightarrow> temp_entry list \<Rightarrow> run_result \<times> temp_entry list" where
  "failing_downloader url path d =
     (Aborted (Exn ''TimeoutExpired'' (lit ''timed out after 300 seconds'')),
      d @ [\<lparr>ename = lit ''audio_20240101_120000.mp3.part'', present = True, removable = True\<rparr>])"

text \<open>A downloader that exits with status 0 and leaves the audio under the job's name
  with another extension.\<close>

definition renaming_downloader ::
  "pystr \<Rightarrow> pystr \<Rightarrow> temp_entry list \<Rightarrow> run_result \<times> temp_entry list" where
  "renaming_downloader url path d =
     (Completed 0 [],
      d @ [\<lparr>ename = lit ''audio_20240101_120000.m4a'', present = True, removable = True\<rparr>])"

text \<open>A local file with a Cyrillic name, and an engine that cannot decode it and says so
  with the path in its message.\<close>

definition example_file_path :: pystr where
  "example_file_path = lit ''/tmp/'' @ [0x437, 0x430, 0x43F, 0x438, 0x441, 0x44C] @ lit ''.txt''"

definition raising_engine :: "pystr \<Rightarrow> pystr option \<Rightarrow> exn + segment list" where
  "raising_engine path language =
     Inl (Exn ''InvalidDataError'' (lit ''Invalid data found when processing input: '' @ path))"


definition example_spoken :: "segment list" where
  "example_spoken =
     [\<lparr>seg_start = 0, seg_end = 5 / 2, seg_text = lit ''Hello''\<rparr>,
      \<lparr>seg_start = 65, seg_end = 70, seg_text = [0x43C, 0x438, 0x440]\<rparr>]"

section \<open>Properties\<close>

lemma dropWhile_rev_fixed:
  "xs = [] \<or> \<not> P (hd xs) \<Longrightarrow>
   dropWhile P (rev (dropWhile P (rev xs))) = rev (dropWhile P (rev xs))"
  by (cases xs) (auto simp: dropWhile_append)

lemma lstrip_rstrip_idem: "lstrip (rstrip (lstrip s)) = rstrip (lstrip s)"
proof -
  have "dropWhile isspace s = [] \<or> \<not> isspace (hd (dropWhile isspace s))"
    using hd_dropWhile by blast
  then show ?thesis
    unfolding lstrip_def rstrip_def by (rule dropWhile_rev_fixed)
qed

lemma rstrip_idem: "rstrip (rstrip s) = rstrip s"
  by (simp add: rstrip_def)

lemma strip_idem: "strip (strip s) = strip s"
  by (simp add: strip_def lstrip_rstrip_idem rstrip_idem)

lemma set_rstrip: "set (rstrip s) \<subseteq> set s"
  unfolding rstrip_def by (metis set_dropWhileD set_rev subsetI)

lemma set_lstrip: "set (lstrip s) \<subseteq> set s"
  unfolding lstrip_def by (meson set_dropWhileD subsetI)

lemma set_strip: "set (strip s) \<subseteq> set s"
  unfolding strip_def using set_rstrip set_lstrip by blast

lemma length_strip: "length (strip s) \<le> length s"
proof -
  have "length (rstrip t) \<le> length t" for t
    unfolding rstrip_def using length_dropWhile_le [of isspace "rev t"] by simp
  moreover have "length (lstrip t) \<le> length t" for t
    unfolding lstrip_def by (simp add: length_dropWhile_le)
  ultimately show ?thesis
    unfolding strip_def using le_trans by blast
qed

lemma strip_hd: "strip s \<noteq> [] \<Longrightarrow> \<not> isspace (hd (strip s))"
proof -
  assume ne: "strip s \<noteq> []"
  have "lstrip (strip s) = strip s"
    by (simp add: strip_def lstrip_rstrip_idem)
  then have "dropWhile isspace (strip s) = strip s" by (simp add: lstrip_def)
  with ne show ?thesis by (metis hd_dropWhile)
qed

lemma strip_last: "strip s \<noteq> [] \<Longrightarrow> \<not> isspace (last (strip s))"
proof -
  assume ne: "strip s \<noteq> []"
  let ?r = "dropWhile isspace (rev (lstrip s))"
  have eq: "strip s = rev ?r" by (simp add: strip_def rstrip_def)
  with ne have "?r \<noteq> []" by simp
  then have "\<not> isspace (hd ?r)" by (rule hd_dropWhile)
  moreover have "last (rev ?r) = hd ?r" using \<open>?r \<noteq> []\<close> by (simp add: last_rev)
  ultimately show ?thesis using eq by simp
qed

subsection \<open>sanitize_filename\<close>

lemma sanitize_filename_chars: "set (sanitize_filename x) \<inter> invalid_chars = {}"
proof -
  have "set (sanitize_filename x) \<subseteq> set (filter (\<lambda>c. c \<notin> invalid_chars) x)"
    unfolding sanitize_filename_def Let_def
    using set_strip set_take_subset by (rule subset_trans)
  then show ?thesis by auto
qed

lemma sanitize_filename_length: "length (sanitize_filename x) \<le> 100"
proof -
  have "length (sanitize_filename x) \<le> length (take 100 (filter (\<lambda>c. c \<notin> invalid_chars) x))"
    unfolding sanitize_filename_def Let_def by (rule length_strip)
  then show ?thesis by simp
qed

lemma sanitize_filename_idem: "sanitize_filename (sanitize_filename x) = sanitize_filename x"
proof -
  let ?y = "sanitize_filename x"
  have "filter (\<lambda>c. c \<notin> invalid_chars) ?y = ?y"
    using sanitize_filename_chars [of x] by (intro filter_True) auto
  moreover have "take 100 ?y = ?y"
    using sanitize_filename_length [of x] by simp
  moreover have "strip ?y = ?y"
    unfolding sanitize_filename_def Let_def by (rule strip_idem)
  ultimately show ?thesis
    by (simp add: sanitize_filename_def [of ?y] Let_def)
qed

text \<open>
  Claim C8. For every string \<open>x\<close>, \<open>sanitize_filename x\<close> contains none of the nine
  characters of the class, has at most 100 code points, neither begins nor ends with a
  whitespace character, and applying \<open>sanitize_filename\<close> to it again changes nothing.
\<close>

theorem sanitize_filename_clean_short_trimmed_idempotent:
  "set (sanitize_filename x) \<inter> invalid_chars = {}
   \<and> length (sanitize_filename x) \<le> 100
   \<and> (sanitize_filename x = []
        \<or> \<not> isspace (hd (sanitize_filename x)) \<and> \<not> isspace (last (sanitize_filename x)))
   \<and> sanitize_filename (sanitize_filename x) = sanitize_filename x"
proof -
  have "sanitize_filename x = []
        \<or> \<not> isspace (hd (sanitize_filename x)) \<and> \<not> isspace (last (sanitize_filename x))"
    unfolding sanitize_filename_def Let_def using strip_hd strip_last by blast
  then show ?thesis
    using sanitize_filename_chars sanitize_filename_length sanitize_filename_idem by blast
qed

lemma sanitize_filename_example:
  "sanitize_filename (lit '' a<b>: c/d? '') = lit ''ab cd''"
  by (simp add: sanitize_filename_def lit_def invalid_chars_def strip_def lstrip_def rstrip_def
      isspace_def)

theorem sanitize_filename_clean_short_trimmed_idempotent_witness:
  "sanitize_filename (lit '' a<b>: c/d? '') \<noteq> []
   \<and> set (sanitize_filename (lit '' a<b>: c/d? '')) \<inter> invalid_chars = {}
   \<and> length (sanitize_filename (lit '' a<b>: c/d? '')) \<le> 100
   \<and> \<not> isspace (hd (sanitize_filename (lit '' a<b>: c/d? '')))
   \<and> \<not> isspace (last (sanitize_filename (lit '' a<b>: c/d? '')))
   \<and> sanitize_filename (sanitize_filename (lit '' a<b>: c/d? ''))
       = sanitize_filename (lit '' a<b>: c/d? '')"
proof -
  have ne: "sanitize_filename (lit '' a<b>: c/d? '') \<noteq> []"
    unfolding sanitize_filename_example by (simp add: lit_def)
  show ?thesis
    using ne sanitize_filename_clean_short_trimmed_idempotent [of "lit '' a<b>: c/d? ''"]
    by blast
qed

subsection \<open>Temp-directory cleanup\<close>

lemma fold_unlink:
  "fold (\<lambda>f s. case unlink f (temp_dir s) of None \<Rightarrow> s | Some d \<Rightarrow> s\<lparr>temp_dir := d\<rparr>) fs st
   = st\<lparr>temp_dir := filter (\<lambda>g. \<not> (\<exists>f \<in> set fs. removable f \<and> ename f = ename g)) (temp_dir st)\<rparr>"
proof (induction fs arbitrary: st)
  case Nil
  then show ?case by simp
next
  case (Cons f fs)
  let ?step = "\<lambda>f s. case unlink f (temp_dir s) of None \<Rightarrow> s | Some d \<Rightarrow> s\<lparr>temp_dir := d\<rparr>"
  let ?keep = "\<lambda>fs g. \<not> (\<exists>f \<in> set fs. removable f \<and> ename f = ename g)"
  have "fold ?step (f # fs) st = fold ?step fs (?step f st)" by simp
  also have "\<dots> = (?step f st)\<lparr>temp_dir := filter (?keep fs) (temp_dir (?step f st))\<rparr>"
    by (rule Cons.IH)
  also have "\<dots> = st\<lparr>temp_dir := filter (?keep (f # fs)) (temp_dir st)\<rparr>"
  proof (cases "removable f")
    case True
    have "filter (?keep fs) (filter (\<lambda>g. ename g \<noteq> ename f) (temp_dir st))
          = filter (?keep (f # fs)) (temp_dir st)"
      using True by (auto intro: filter_cong)
    then show ?thesis using True by (simp add: unlink_def)
  next
    case False
    have "filter (?keep fs) (temp_dir st) = filter (?keep (f # fs)) (temp_dir st)"
      using False by (auto intro: filter_cong)
    then show ?thesis using False by (simp add: unlink_def)
  qed
  finally show ?case .
qed

lemma cleanup_temp_eq:
  "cleanup_temp st =
     st\<lparr>temp_dir := filter (\<lambda>g. \<not> (\<exists>f \<in> set (temp_dir st).
                                 matches_audio (ename f) \<and> removable f \<and> ename f = ename g))
                       (temp_dir st)\<rparr>"
proof -
  have "filter (\<lambda>g. \<not> (\<exists>f \<in> set (filter (\<lambda>f. matches_audio (ename f)) (temp_dir st)).
                           removable f \<and> ename f = ename g)) (temp_dir st)
        = filter (\<lambda>g. \<not> (\<exists>f \<in> set (temp_dir st).
                                 matches_audio (ename f) \<and> removable f \<and> ename f = ename g))
                       (temp_dir st)"
    by (auto intro: filter_cong)
  then show ?thesis unfolding cleanup_temp_def fold_unlink by simp
qed

lemma cleanup_temp_fields [simp]:
  "store (cleanup_temp st) = store st" "log (cleanup_temp st) = log st"
  "whisper_model (cleanup_temp st) = whisper_model st"
  by (simp_all add: cleanup_temp_eq)

lemma cleanup_temp_leftover:
  "f \<in> set (temp_dir (cleanup_temp st)) \<Longrightarrow> matches_audio (ename f) \<Longrightarrow> \<not> removable f"
  by (auto simp: cleanup_temp_eq)

lemma cleanup_temp_others:
  "filter (\<lambda>f. \<not> matches_audio (ename f)) (temp_dir (cleanup_temp st))
   = filter (\<lambda>f. \<not> matches_audio (ename f)) (temp_dir st)"
  by (auto simp: cleanup_temp_eq intro: filter_cong)

lemma cleanup_temp_kept:
  "set (temp_dir (cleanup_temp st)) \<subseteq> set (temp_dir st)"
  by (auto simp: cleanup_temp_eq)

lemma snd_get_video_info [simp]:
  "snd (get_video_info env st url) = st\<lparr>log := log st @ [Probe url]\<rparr>"
  by (simp add: get_video_info_def Let_def split: run_result.splits sum.splits json.splits)

lemma log_get_whisper_model [simp]:
  "log (snd (get_whisper_model env st)) = log st"
  "store (snd (get_whisper_model env st)) = store st"
  "temp_dir (snd (get_whisper_model env st)) = temp_dir st"
  by (simp_all add: get_whisper_model_def split: option.splits)

lemma transcribe_audio_state:
  "\<exists>evs. log (snd (transcribe_audio env st p l)) = log st @ evs"
  "store (snd (transcribe_audio env st p l)) = store st"
  "temp_dir (snd (transcribe_audio env st p l)) = temp_dir st"
  by (auto simp: transcribe_audio_def get_whisper_model_def Let_def split: option.splits sum.splits)

lemma write_text_log:
  "log (snd (write_text env st name data)) = log st @ [Write name]"
  "temp_dir (snd (write_text env st name data)) = temp_dir st"
  by (simp_all add: write_text_def Let_def split: option.splits)

lemma save_transcript_log:
  "\<exists>evs. log (snd (save_transcript env st url platform t d segs l)) = log st @ evs"
  "temp_dir (snd (save_transcript env st url platform t d segs l)) = temp_dir st"
proof -
  let ?w = "write_text env st (now_file env @ lit ''_'' @ platform @ lit ''_'' @ sanitize_filename t @ lit ''.txt'')
              (join [0x0A] (transcript_lines env url platform t d segs l))"
  have eq: "snd (save_transcript env st url platform t d segs l) = snd ?w"
    by (cases ?w) (auto simp: save_transcript_def Let_def split: sum.splits)
  show "\<exists>evs. log (snd (save_transcript env st url platform t d segs l)) = log st @ evs"
    unfolding eq by (simp add: write_text_log)
  show "temp_dir (snd (save_transcript env st url platform t d segs l)) = temp_dir st"
    unfolding eq by (simp add: write_text_log)
qed

lemma download_audio_state:
  "snd (download_audio env st url p) =
     st\<lparr>temp_dir := snd (downloader env url p (temp_dir st)), log := log st @ [Download url p]\<rparr>"
  "fst (download_audio env st url p) =
     (case fst (downloader env url p (temp_dir st)) of Completed rc out \<Rightarrow> rc = 0 | Aborted e \<Rightarrow> False)"
  by (simp_all add: download_audio_def split: prod.splits)

lemma body_log:
  "\<exists>evs. log (snd (transcribe_url_body env st url l pf t d p)) = log st @ [Download url p] @ evs"
proof -
  obtain ok st1 where da: "download_audio env st url p = (ok, st1)" by (cases "download_audio env st url p")
  then have l1: "log st1 = log st @ [Download url p]"
    using download_audio_state(1) [of env st url p] by simp
  show ?thesis
  proof (cases ok)
    case False
    then show ?thesis using da l1 by (simp add: transcribe_url_body_def)
  next
    case True
    show ?thesis
    proof (cases "filter (\<lambda>f. matches_audio_mp3 (ename f)) (temp_dir st1)")
      case Nil
      then show ?thesis using da l1 True by (simp add: transcribe_url_body_def)
    next
      case (Cons f fs)
      show ?thesis
      proof (cases "present f")
        case False
        then show ?thesis using da l1 True Cons by (simp add: transcribe_url_body_def)
      next
        case pf: True
        obtain r st2 where ta: "transcribe_audio env st1 (path_join (temp_dir_path env) (ename f)) l = (r, st2)"
          by (cases "transcribe_audio env st1 (path_join (temp_dir_path env) (ename f)) l")
        obtain evs where l2: "log st2 = log st1 @ evs"
          using transcribe_audio_state(1) [of env st1 "path_join (temp_dir_path env) (ename f)" l] ta by auto
        show ?thesis
        proof (cases r)
          case (Inl e)
          then show ?thesis using da l1 True Cons pf ta l2 by (simp add: transcribe_url_body_def)
        next
          case (Inr segs)
          show ?thesis
          proof (cases "segs = []")
            case True
            then show ?thesis using da l1 \<open>ok\<close> Cons pf ta l2 Inr by (simp add: transcribe_url_body_def)
          next
            case ne: False
            show ?thesis
            proof (cases "\<exists>tt dd. t = JStr tt \<and> as_int d = Some dd")
              case False
              then show ?thesis using da l1 \<open>ok\<close> Cons pf ta l2 Inr ne
                by (auto simp: transcribe_url_body_def split: json.splits option.splits)
            next
              case True
              then obtain tt dd where td: "t = JStr tt" "as_int d = Some dd" by blast
              obtain r3 st3 where sv: "save_transcript env st2 url pf tt dd segs l = (r3, st3)"
                by (cases "save_transcript env st2 url pf tt dd segs l")
              obtain evs3 where l3: "log st3 = log st2 @ evs3"
                using save_transcript_log(1) [of env st2 url pf tt dd segs l] sv by auto
              show ?thesis using da l1 \<open>ok\<close> Cons pf ta l2 Inr ne td sv l3
                by (cases r3) (simp_all add: transcribe_url_body_def)
            qed
          qed
        qed
      qed
    qed
  qed
qed

lemma run_eq:
  "transcribe_url_run env st url language =
     transcribe_url_body env (st\<lparr>log := log st @ [Probe url]\<rparr>) url (resolve_language env language)
       (detect_platform env url) (info_title (fst (get_video_info env st url)))
       (info_duration (fst (get_video_info env st url))) (temp_audio_path env)"
  using snd_get_video_info [of env st url]
  by (cases "get_video_info env st url") (simp add: transcribe_url_run_def Let_def)

lemma handle_eq:
  "fst (handle_transcribe_url env st url language) = fst (transcribe_url_run env st url language)"
  "snd (handle_transcribe_url env st url language) = cleanup_temp (snd (transcribe_url_run env st url language))"
  by (simp_all add: handle_transcribe_url_def split: prod.splits)

text \<open>
  Claim C1. On every way out of \<open>transcribe_url\<close> (the download error, the missing
  artifact, no speech, an exception raised inside the \<open>try\<close>, success) the result or
  exception is the one the \<open>try\<close> produced, whatever \<open>unlink\<close> did, and when control
  returns every entry of the temp directory whose name matches \<open>audio_*\<close> is gone,
  those whose removal failed excepted; no other entry is touched and none is added.
\<close>

theorem transcribe_url_always_cleans_temp:
  "fst (handle_transcribe_url env st url language) = fst (transcribe_url_run env st url language)
   \<and> (\<forall>f \<in> set (temp_dir (snd (handle_transcribe_url env st url language))).
         matches_audio (ename f) \<longrightarrow> \<not> removable f)
   \<and> filter (\<lambda>f. \<not> matches_audio (ename f)) (temp_dir (snd (handle_transcribe_url env st url language)))
       = filter (\<lambda>f. \<not> matches_audio (ename f)) (temp_dir (snd (transcribe_url_run env st url language)))
   \<and> set (temp_dir (snd (handle_transcribe_url env st url language)))
       \<subseteq> set (temp_dir (snd (transcribe_url_run env st url language)))"
  unfolding handle_eq
  using cleanup_temp_leftover cleanup_temp_others cleanup_temp_kept by blast


theorem transcribe_url_always_cleans_temp_witness:
  "temp_dir (snd (transcribe_url_run (example_env\<lparr>downloader := failing_downloader\<rparr>)
                    example_state example_url None))
     = [\<lparr>ename = lit ''audio_old.part'', present = True, removable = False\<rparr>,
        \<lparr>ename = lit ''notes.md'', present = True, removable = True\<rparr>,
        \<lparr>ename = lit ''audio_20240101_120000.mp3.part'', present = True, removable = True\<rparr>]
   \<and> temp_dir (snd (handle_transcribe_url (example_env\<lparr>downloader := failing_downloader\<rparr>)
                    example_state example_url None))
     = [\<lparr>ename = lit ''audio_old.part'', present = True, removable = False\<rparr>,
        \<lparr>ename = lit ''notes.md'', present = True, removable = True\<rparr>]
   \<and> \<lparr>ename = lit ''audio_old.part'', present = True, removable = False\<rparr>
       \<in> set (temp_dir (snd (handle_transcribe_url
                  (example_env\<lparr>downloader := failing_downloader\<rparr>) example_state example_url None)))
   \<and> matches_audio (ename \<lparr>ename = lit ''audio_old.part'', present = True, removable = False\<rparr>)
   \<and> \<not> removable \<lparr>ename = lit ''audio_old.part'', present = True, removable = False\<rparr>
   \<and> fst (handle_transcribe_url (example_env\<lparr>downloader := failing_downloader\<rparr>)
            example_state example_url None)
       = fst (transcribe_url_run (example_env\<lparr>downloader := failing_downloader\<rparr>)
            example_state example_url None)"
proof -
  let ?env = "example_env\<lparr>downloader := failing_downloader\<rparr>"
  let ?old = "\<lparr>ename = lit ''audio_old.part'', present = True, removable = False\<rparr>"
  have r: "temp_dir (snd (transcribe_url_run ?env example_state example_url None))
     = [?old,
        \<lparr>ename = lit ''notes.md'', present = True, removable = True\<rparr>,
        \<lparr>ename = lit ''audio_20240101_120000.mp3.part'', present = True, removable = True\<rparr>]"
    by (simp add: run_eq transcribe_url_body_def download_audio_def failing_downloader_def
        example_state_def)
  have m: "matches_audio (lit ''audio_old.part'')" "\<not> matches_audio (lit ''notes.md'')"
    "matches_audio (lit ''audio_20240101_120000.mp3.part'')"
    by (simp_all add: matches_audio_def startswith_def lit_def)
  have n: "lit ''audio_old.part'' \<noteq> lit ''audio_20240101_120000.mp3.part''"
    "lit ''notes.md'' \<noteq> lit ''audio_20240101_120000.mp3.part''"
    by (simp_all add: lit_def)
  have c: "temp_dir (snd (handle_transcribe_url ?env example_state example_url None))
     = [?old, \<lparr>ename = lit ''notes.md'', present = True, removable = True\<rparr>]"
    unfolding handle_eq cleanup_temp_eq using m n by (simp add: r)
  have i: "?old \<in> set (temp_dir (snd (handle_transcribe_url ?env example_state example_url None)))"
    unfolding c by simp
  have mo: "matches_audio (ename ?old)" using m(1) by simp
  note t = transcribe_url_always_cleans_temp [of ?env example_state example_url None]
  from t have "\<forall>f \<in> set (temp_dir (snd (handle_transcribe_url ?env example_state example_url None))).
         matches_audio (ename f) \<longrightarrow> \<not> removable f"
    by (elim conjE)
  from this i have "matches_audio (ename ?old) \<longrightarrow> \<not> removable ?old" by (rule bspec)
  from this mo have nr: "\<not> removable ?old" by (rule mp)
  from t have e: "fst (handle_transcribe_url ?env example_state example_url None)
       = fst (transcribe_url_run ?env example_state example_url None)"
    by (elim conjE)
  from r c i mo nr e show ?thesis by (intro conjI)
qed

subsection \<open>Metadata probe\<close>

text \<open>
  Claim C5. \<open>get_video_info\<close> always returns a record of title, duration and uploader.
  When the probe raises (timeout, spawn failure), exits with a non-zero status, prints
  what \<open>json.loads\<close> rejects, or prints a document that is no dictionary, the record is
  exactly title "Unknown", duration 0, uploader "Unknown"; otherwise its fields are those
  of the document, with these defaults for missing keys. The probe changes nothing but
  the call log, and whatever it returned the URL flow goes on to call the downloader.
\<close>

theorem get_video_info_absorbs_failures:
  "(\<forall>e. probe env url = Aborted e \<longrightarrow> fst (get_video_info env st url) = default_info)
   \<and> (\<forall>rc out. probe env url = Completed rc out \<and> rc \<noteq> 0
         \<longrightarrow> fst (get_video_info env st url) = default_info)
   \<and> (\<forall>out e. probe env url = Completed 0 out \<and> json_loads env out = Inl e
         \<longrightarrow> fst (get_video_info env st url) = default_info)
   \<and> (\<forall>out v. probe env url = Completed 0 out \<and> json_loads env out = Inr v \<and> (\<forall>d. v \<noteq> JObj d)
         \<longrightarrow> fst (get_video_info env st url) = default_info)
   \<and> (\<forall>out d. probe env url = Completed 0 out \<and> json_loads env out = Inr (JObj d)
         \<longrightarrow> fst (get_video_info env st url)
             = \<lparr>info_title = dict_get d (lit ''title'') (JStr (lit ''Unknown'')),
                info_duration = dict_get d (lit ''duration'') (JInt 0),
                info_uploader = dict_get d (lit ''uploader'') (JStr (lit ''Unknown''))\<rparr>)
   \<and> default_info = \<lparr>info_title = JStr (lit ''Unknown''), info_duration = JInt 0,
                       info_uploader = JStr (lit ''Unknown'')\<rparr>
   \<and> snd (get_video_info env st url) = st\<lparr>log := log st @ [Probe url]\<rparr>
   \<and> (\<exists>evs. log (snd (handle_transcribe_url env st url language))
               = log st @ [Probe url, Download url (temp_audio_path env)] @ evs)"
proof -
  have c8: "\<exists>evs. log (snd (handle_transcribe_url env st url language))
               = log st @ [Probe url, Download url (temp_audio_path env)] @ evs"
    unfolding handle_eq run_eq
    using body_log [of env "st\<lparr>log := log st @ [Probe url]\<rparr>" url] by simp
  have c1: "\<forall>e. probe env url = Aborted e \<longrightarrow> fst (get_video_info env st url) = default_info"
    by (simp add: get_video_info_def Let_def)
  have c2: "\<forall>rc out. probe env url = Completed rc out \<and> rc \<noteq> 0
         \<longrightarrow> fst (get_video_info env st url) = default_info"
    by (simp add: get_video_info_def Let_def)
  have c3: "\<forall>out e. probe env url = Completed 0 out \<and> json_loads env out = Inl e
         \<longrightarrow> fst (get_video_info env st url) = default_info"
    by (simp add: get_video_info_def Let_def)
  have c4: "\<forall>out v. probe env url = Completed 0 out \<and> json_loads env out = Inr v \<and> (\<forall>d. v \<noteq> JObj d)
         \<longrightarrow> fst (get_video_info env st url) = default_info"
    by (auto simp: get_video_info_def Let_def split: json.splits)
  have c5: "\<forall>out d. probe env url = Completed 0 out \<and> json_loads env out = Inr (JObj d)
         \<longrightarrow> fst (get_video_info env st url)
             = \<lparr>info_title = dict_get d (lit ''title'') (JStr (lit ''Unknown'')),
                info_duration = dict_get d (lit ''duration'') (JInt 0),
                info_uploader = dict_get d (lit ''uploader'') (JStr (lit ''Unknown''))\<rparr>"
    by (simp add: get_video_info_def Let_def)
  have c6: "default_info = \<lparr>info_title = JStr (lit ''Unknown''), info_duration = JInt 0,
                       info_uploader = JStr (lit ''Unknown'')\<rparr>"
    by (simp add: default_info_def)
  have c7: "snd (get_video_info env st url) = st\<lparr>log := log st @ [Probe url]\<rparr>"
    by (rule snd_get_video_info)
  show ?thesis
    using c1 c2 c3 c4 c5 c6 c7 c8 by (intro conjI)
qed


theorem get_video_info_absorbs_failures_witness:
  "fst (get_video_info example_env example_state example_url) = default_info
   \<and> fst (get_video_info (example_env\<lparr>probe := \<lambda>u. Completed 1 []\<rparr>) example_state example_url)
       = default_info
   \<and> fst (get_video_info (example_env\<lparr>probe := \<lambda>u. Completed 0 (lit ''<html>'')\<rparr>)
            example_state example_url) = default_info
   \<and> fst (get_video_info (example_env\<lparr>probe := \<lambda>u. Completed 0 (lit ''[]''),
                                        json_loads := \<lambda>s. Inr (JArr [])\<rparr>)
            example_state example_url) = default_info
   \<and> fst (get_video_info
            (example_env\<lparr>probe := \<lambda>u. Completed 0 (lit ''{}''),
                         json_loads := \<lambda>s. Inr (JObj [(lit ''title'', JStr (lit ''Talk'')),
                                                      (lit ''duration'', JInt 125)])\<rparr>)
            example_state example_url)
       = \<lparr>info_title = JStr (lit ''Talk''), info_duration = JInt 125,
          info_uploader = JStr (lit ''Unknown'')\<rparr>"
proof -
  let ?e2 = "example_env\<lparr>probe := \<lambda>u. Completed 1 []\<rparr>"
  let ?e3 = "example_env\<lparr>probe := \<lambda>u. Completed 0 (lit ''<html>'')\<rparr>"
  let ?e4 = "example_env\<lparr>probe := \<lambda>u. Completed 0 (lit ''[]''), json_loads := \<lambda>s. Inr (JArr [])\<rparr>"
  let ?d = "[(lit ''title'', JStr (lit ''Talk'')), (lit ''duration'', JInt 125)]"
  let ?e5 = "example_env\<lparr>probe := \<lambda>u. Completed 0 (lit ''{}''), json_loads := \<lambda>s. Inr (JObj ?d)\<rparr>"
  have h1: "probe example_env example_url = Aborted (Exn ''TimeoutExpired'' (lit ''timed out''))"
    by (simp add: example_env_def)
  have h2: "probe ?e2 example_url = Completed 1 [] \<and> (1::int) \<noteq> 0" by simp
  have h3: "probe ?e3 example_url = Completed 0 (lit ''<html>'')
            \<and> json_loads ?e3 (lit ''<html>'') = Inl (Exn ''JSONDecodeError'' (lit ''Expecting value''))"
    by (simp add: example_env_def)
  have h4: "probe ?e4 example_url = Completed 0 (lit ''[]'')
            \<and> json_loads ?e4 (lit ''[]'') = Inr (JArr []) \<and> (\<forall>d. JArr [] \<noteq> JObj d)"
    by simp
  have h5: "probe ?e5 example_url = Completed 0 (lit ''{}'')
            \<and> json_loads ?e5 (lit ''{}'') = Inr (JObj ?d)"
    by simp
  have g: "dict_get ?d (lit ''title'') (JStr (lit ''Unknown'')) = JStr (lit ''Talk'')"
    "dict_get ?d (lit ''duration'') (JInt 0) = JInt 125"
    "dict_get ?d (lit ''uploader'') (JStr (lit ''Unknown'')) = JStr (lit ''Unknown'')"
    by (simp_all add: dict_get_def lit_def)
  have "\<forall>e. probe example_env example_url = Aborted e
          \<longrightarrow> fst (get_video_info example_env example_state example_url) = default_info"
    using get_video_info_absorbs_failures [of example_env example_url example_state None]
    by (elim conjE)
  then have "probe example_env example_url = Aborted (Exn ''TimeoutExpired'' (lit ''timed out''))
          \<longrightarrow> fst (get_video_info example_env example_state example_url) = default_info"
    by (elim allE)
  from this h1 have w1: "fst (get_video_info example_env example_state example_url) = default_info"
    by (rule mp)
  have "\<forall>rc out. probe ?e2 example_url = Completed rc out \<and> rc \<noteq> 0
          \<longrightarrow> fst (get_video_info ?e2 example_state example_url) = default_info"
    using get_video_info_absorbs_failures [of ?e2 example_url example_state None]
    by (elim conjE)
  then have "probe ?e2 example_url = Completed 1 [] \<and> (1::int) \<noteq> 0
          \<longrightarrow> fst (get_video_info ?e2 example_state example_url) = default_info"
    by (elim allE)
  from this h2 have w2: "fst (get_video_info ?e2 example_state example_url) = default_info"
    by (rule mp)
  have "\<forall>out e. probe ?e3 example_url = Completed 0 out \<and> json_loads ?e3 out = Inl e
          \<longrightarrow> fst (get_video_info ?e3 example_state example_url) = default_info"
    using get_video_info_absorbs_failures [of ?e3 example_url example_state None]
    by (elim conjE)
  then have "probe ?e3 example_url = Completed 0 (lit ''<html>'')
            \<and> json_loads ?e3 (lit ''<html>'') = Inl (Exn ''JSONDecodeError'' (lit ''Expecting value''))
          \<longrightarrow> fst (get_video_info ?e3 example_state example_url) = default_info"
    by (elim allE)
  from this h3 have w3: "fst (get_video_info ?e3 example_state example_url) = default_info"
    by (rule mp)
  have "\<forall>out v. probe ?e4 example_url = Completed 0 out \<and> json_loads ?e4 out = Inr v
            \<and> (\<forall>d. v \<noteq> JObj d)
          \<longrightarrow> fst (get_video_info ?e4 example_state example_url) = default_info"
    using get_video_info_absorbs_failures [of ?e4 example_url example_state None]
    by (elim conjE)
  then have "probe ?e4 example_url = Completed 0 (lit ''[]'')
            \<and> json_loads ?e4 (lit ''[]'') = Inr (JArr []) \<and> (\<forall>d. JArr [] \<noteq> JObj d)
          \<longrightarrow> fst (get_video_info ?e4 example_state example_url) = default_info"
    by (elim allE)
  from this h4 have w4: "fst (get_video_info ?e4 example_state example_url) = default_info"
    by (rule mp)
  have "\<forall>out d. probe ?e5 example_url = Completed 0 out \<and> json_loads ?e5 out = Inr (JObj d)
         \<longrightarrow> fst (get_video_info ?e5 example_state example_url)
             = \<lparr>info_title = dict_get d (lit ''title'') (JStr (lit ''Unknown'')),
                info_duration = dict_get d (lit ''duration'') (JInt 0),
                info_uploader = dict_get d (lit ''uploader'') (JStr (lit ''Unknown''))\<rparr>"
    using get_video_info_absorbs_failures [of ?e5 example_url example_state None]
    by (elim conjE)
  then have "probe ?e5 example_url = Completed 0 (lit ''{}'') \<and> json_loads ?e5 (lit ''{}'') = Inr (JObj ?d)
         \<longrightarrow> fst (get_video_info ?e5 example_state example_url)
             = \<lparr>info_title = dict_get ?d (lit ''title'') (JStr (lit ''Unknown'')),
                info_duration = dict_get ?d (lit ''duration'') (JInt 0),
                info_uploader = dict_get ?d (lit ''uploader'') (JStr (lit ''Unknown''))\<rparr>"
    by (elim allE)
  from this h5 have "fst (get_video_info ?e5 example_state example_url)
             = \<lparr>info_title = dict_get ?d (lit ''title'') (JStr (lit ''Unknown'')),
                info_duration = dict_get ?d (lit ''duration'') (JInt 0),
                info_uploader = dict_get ?d (lit ''uploader'') (JStr (lit ''Unknown''))\<rparr>"
    by (rule mp)
  then have w5: "fst (get_video_info ?e5 example_state example_url)
       = \<lparr>info_title = JStr (lit ''Talk''), info_duration = JInt 125,
          info_uploader = JStr (lit ''Unknown'')\<rparr>"
    unfolding g .
  from w1 w2 w3 w4 w5 show ?thesis by (intro conjI)
qed

subsection \<open>URL flow: acquisition failure\<close>

text \<open>
  Claim C2. When the downloader does not exit with status 0 (a non-zero exit, a timeout
  or a failure to spawn, whatever it left in the temp directory), \<open>transcribe_url\<close>
  returns exactly the dictionary with the one key \<open>error\<close> and the message
  "Failed to download audio from <url>. Make sure the video is public."; the transcript
  store and the engine are as before the call, and the only external calls made are the
  probe and the download.
\<close>

theorem transcribe_url_download_failed:
  assumes "\<forall>out. fst (downloader env url (temp_audio_path env) (temp_dir st)) \<noteq> Completed 0 out"
  shows "fst (handle_transcribe_url env st url language)
           = Inr (error_result (lit ''Failed to download audio from '' @ url
                                @ lit ''. Make sure the video is public.''))
         \<and> store (snd (handle_transcribe_url env st url language)) = store st
         \<and> whisper_model (snd (handle_transcribe_url env st url language)) = whisper_model st
         \<and> log (snd (handle_transcribe_url env st url language))
             = log st @ [Probe url, Download url (temp_audio_path env)]"
proof -
  let ?st0 = "st\<lparr>log := log st @ [Probe url]\<rparr>"
  have "\<not> fst (download_audio env ?st0 url (temp_audio_path env))"
    using assms by (auto simp: download_audio_state split: run_result.splits)
  then have "transcribe_url_run env st url language =
      (Inr (error_result (lit ''Failed to download audio from '' @ url
                                @ lit ''. Make sure the video is public.'')),
       snd (download_audio env ?st0 url (temp_audio_path env)))"
    unfolding run_eq by (cases "download_audio env ?st0 url (temp_audio_path env)")
      (simp add: transcribe_url_body_def)
  then show ?thesis
    by (simp add: handle_eq download_audio_state)
qed

theorem transcribe_url_download_failed_witness:
  "(\<forall>out. fst (downloader (example_env\<lparr>downloader := failing_downloader\<rparr>) example_url
                 (temp_audio_path (example_env\<lparr>downloader := failing_downloader\<rparr>))
                 (temp_dir example_state)) \<noteq> Completed 0 out)
   \<and> fst (handle_transcribe_url (example_env\<lparr>downloader := failing_downloader\<rparr>) example_state
            example_url None)
       = Inr (VDict [(lit ''error'',
                VStr (lit ''Failed to download audio from https://youtu.be/abc. Make sure the video is public.''))])
   \<and> store (snd (handle_transcribe_url (example_env\<lparr>downloader := failing_downloader\<rparr>)
                    example_state example_url None)) = []
   \<and> log (snd (handle_transcribe_url (example_env\<lparr>downloader := failing_downloader\<rparr>)
                    example_state example_url None))
       = [Probe example_url, Download example_url (lit ''/srv/app/temp/audio_20240101_120000.mp3'')]"
proof -
  let ?env = "example_env\<lparr>downloader := failing_downloader\<rparr>"
  have h: "\<forall>out. fst (downloader ?env example_url (temp_audio_path ?env) (temp_dir example_state))
             \<noteq> Completed 0 out"
    by (simp add: failing_downloader_def)
  have p: "temp_audio_path ?env = lit ''/srv/app/temp/audio_20240101_120000.mp3''"
    by (simp add: temp_audio_path_def path_join_def endswith_def example_env_def lit_def)
  have s: "store example_state = []" "log example_state = []"
    by (simp_all add: example_state_def)
  show ?thesis
    using h transcribe_url_download_failed [OF h, of None]
    unfolding p s by (simp add: error_result_def lit_def example_url_def)
qed

subsection \<open>URL flow: locating the artifact\<close>

lemma length_lit [simp]: "length (lit s) = length s"
  by (simp add: lit_def)

lemma matches_audio_mp3_iff:
  "matches_audio_mp3 n = (\<exists>m. n = lit ''audio_'' @ m @ lit ''.mp3'')"
proof
  assume h: "matches_audio_mp3 n"
  then have a: "take 6 n = lit ''audio_''" and b: "drop (length n - 4) n = lit ''.mp3''"
    and c: "10 \<le> length n"
    by (simp_all add: matches_audio_mp3_def startswith_def endswith_def eval_nat_numeral)
  have "n = take 6 n @ drop 6 n" by simp
  also have "drop 6 n = take (length n - 10) (drop 6 n) @ drop (length n - 10) (drop 6 n)"
    by (rule append_take_drop_id [symmetric])
  also have "drop (length n - 10) (drop 6 n) = drop (length n - 4) n"
    using c by simp
  finally have "n = lit ''audio_'' @ take (length n - 10) (drop 6 n) @ lit ''.mp3''"
    using a b by simp
  then show "\<exists>m. n = lit ''audio_'' @ m @ lit ''.mp3''" by blast
next
  assume "\<exists>m. n = lit ''audio_'' @ m @ lit ''.mp3''"
  then obtain m where "n = lit ''audio_'' @ m @ lit ''.mp3''" by blast
  then show "matches_audio_mp3 n"
    by (simp add: matches_audio_mp3_def startswith_def endswith_def)
qed

lemma transcribe_audio_log_loaded:
  assumes "whisper_model st \<or> load_model env = None"
  shows "log (snd (transcribe_audio env st p l))
         = log st @ [Transcribe p (if l \<noteq> lit ''auto'' then Some l else None)]"
  using assms
  by (auto simp: transcribe_audio_def get_whisper_model_def Let_def split: option.splits sum.splits)

lemma body_artifact:
  assumes dl: "downloader env url p (temp_dir st) = (Completed 0 out, d)"
  shows "(fst (transcribe_url_body env st url l pf t du p)
            = Inr (error_result (lit ''Audio file not found after download'')))
         = artifact_missing d"
    and "artifact_missing d \<Longrightarrow>
           snd (transcribe_url_body env st url l pf t du p)
             = st\<lparr>temp_dir := d, log := log st @ [Download url p]\<rparr>"
    and "\<not> artifact_missing d \<Longrightarrow> whisper_model st \<or> load_model env = None \<Longrightarrow>
           \<exists>evs. log (snd (transcribe_url_body env st url l pf t du p))
             = log st @ [Download url p,
                 Transcribe (path_join (temp_dir_path env)
                    (ename (hd (filter (\<lambda>f. matches_audio_mp3 (ename f)) d))))
                   (if l \<noteq> lit ''auto'' then Some l else None)] @ evs"
proof -
  let ?st1 = "st\<lparr>temp_dir := d, log := log st @ [Download url p]\<rparr>"
  let ?err = "Inr (error_result (lit ''Audio file not found after download'')) :: exn + pyval"
  have da: "download_audio env st url p = (True, ?st1)"
    using dl by (simp add: download_audio_def)
  have ne: "lit ''No speech detected in the video'' \<noteq> lit ''Audio file not found after download''"
    by (simp add: lit_def)
  show "(fst (transcribe_url_body env st url l pf t du p) = ?err) = artifact_missing d"
   and "artifact_missing d \<Longrightarrow> snd (transcribe_url_body env st url l pf t du p) = ?st1"
   and "\<not> artifact_missing d \<Longrightarrow> whisper_model st \<or> load_model env = None \<Longrightarrow>
           \<exists>evs. log (snd (transcribe_url_body env st url l pf t du p))
             = log st @ [Download url p,
                 Transcribe (path_join (temp_dir_path env)
                    (ename (hd (filter (\<lambda>f. matches_audio_mp3 (ename f)) d))))
                   (if l \<noteq> lit ''auto'' then Some l else None)] @ evs"
  proof (atomize (full), cases "filter (\<lambda>f. matches_audio_mp3 (ename f)) d")
    case Nil
    then show "((fst (transcribe_url_body env st url l pf t du p) = ?err) = artifact_missing d)
      \<and> (artifact_missing d \<longrightarrow> snd (transcribe_url_body env st url l pf t du p) = ?st1)
      \<and> (\<not> artifact_missing d \<longrightarrow> whisper_model st \<or> load_model env = None \<longrightarrow>
           (\<exists>evs. log (snd (transcribe_url_body env st url l pf t du p))
             = log st @ [Download url p,
                 Transcribe (path_join (temp_dir_path env)
                    (ename (hd (filter (\<lambda>f. matches_audio_mp3 (ename f)) d))))
                   (if l \<noteq> lit ''auto'' then Some l else None)] @ evs))"
      using da by (simp add: transcribe_url_body_def artifact_missing_def)
  next
    case (Cons f fs)
    show "((fst (transcribe_url_body env st url l pf t du p) = ?err) = artifact_missing d)
      \<and> (artifact_missing d \<longrightarrow> snd (transcribe_url_body env st url l pf t du p) = ?st1)
      \<and> (\<not> artifact_missing d \<longrightarrow> whisper_model st \<or> load_model env = None \<longrightarrow>
           (\<exists>evs. log (snd (transcribe_url_body env st url l pf t du p))
             = log st @ [Download url p,
                 Transcribe (path_join (temp_dir_path env)
                    (ename (hd (filter (\<lambda>f. matches_audio_mp3 (ename f)) d))))
                   (if l \<noteq> lit ''auto'' then Some l else None)] @ evs))"
    proof (cases "present f")
      case False
      then show ?thesis using da Cons by (simp add: transcribe_url_body_def artifact_missing_def)
    next
      case pr: True
      then have am: "\<not> artifact_missing d" using Cons by (simp add: artifact_missing_def)
      let ?path = "path_join (temp_dir_path env) (ename f)"
      obtain r st2 where ta: "transcribe_audio env ?st1 ?path l = (r, st2)"
        by (cases "transcribe_audio env ?st1 ?path l")
      have l2: "whisper_model st \<or> load_model env = None \<Longrightarrow>
                log st2 = log st @ [Download url p, Transcribe ?path (if l \<noteq> lit ''auto'' then Some l else None)]"
        using transcribe_audio_log_loaded [of ?st1 env ?path l] ta by simp
      show ?thesis
      proof (cases r)
        case (Inl e)
        then show ?thesis using da Cons pr am ta l2 by (simp add: transcribe_url_body_def)
      next
        case (Inr segs)
        show ?thesis
        proof (cases "segs = []")
          case True
          then show ?thesis using da Cons pr am ta l2 Inr ne
            by (simp add: transcribe_url_body_def error_result_def)
        next
          case nes: False
          show ?thesis
          proof (cases "\<exists>tt dd. t = JStr tt \<and> as_int du = Some dd")
            case False
            then show ?thesis using da Cons pr am ta l2 Inr nes
              by (auto simp: transcribe_url_body_def split: json.splits option.splits)
          next
            case True
            then obtain tt dd where td: "t = JStr tt" "as_int du = Some dd" by blast
            obtain r3 st3 where sv: "save_transcript env st2 url pf tt dd segs l = (r3, st3)"
              by (cases "save_transcript env st2 url pf tt dd segs l")
            obtain evs3 where l3: "log st3 = log st2 @ evs3"
              using save_transcript_log(1) [of env st2 url pf tt dd segs l] sv by auto
            show ?thesis using da Cons pr am ta l2 Inr nes td sv l3
              by (cases r3) (simp_all add: transcribe_url_body_def error_result_def)
          qed
        qed
      qed
    qed
  qed
qed

lemma renamed_run:
  "downloader (example_env\<lparr>downloader := renaming_downloader\<rparr>) example_url
      (temp_audio_path (example_env\<lparr>downloader := renaming_downloader\<rparr>)) (temp_dir example_state)
   = (Completed 0 [],
      [\<lparr>ename = lit ''audio_old.part'', present = True, removable = False\<rparr>,
       \<lparr>ename = lit ''notes.md'', present = True, removable = True\<rparr>,
       \<lparr>ename = lit ''audio_20240101_120000.m4a'', present = True, removable = True\<rparr>])"
  by (simp add: renaming_downloader_def example_state_def)

lemma renamed_missing:
  "artifact_missing
     [\<lparr>ename = lit ''audio_old.part'', present = True, removable = False\<rparr>,
      \<lparr>ename = lit ''notes.md'', present = True, removable = True\<rparr>,
      \<lparr>ename = lit ''audio_20240101_120000.m4a'', present = True, removable = True\<rparr>]"
  by (simp add: artifact_missing_def matches_audio_mp3_def startswith_def endswith_def lit_def)

text \<open>
  Claim C3, as the code has it. After a download that exited with status 0 the temp
  directory is scanned for names of the form \<open>audio_<anything>.mp3\<close>; only this final
  extension is accepted. The flow returns the error "Audio file not found after download"
  if and only if no name matches or the first match of the scan does not exist, and then
  neither the engine nor the store is touched; otherwise (the engine being loadable) the
  first match is the file handed to the engine.
\<close>

theorem transcribe_url_artifact_lookup:
  assumes "downloader env url (temp_audio_path env) (temp_dir st) = (Completed 0 out, d)"
  shows "((fst (handle_transcribe_url env st url language)
             = Inr (error_result (lit ''Audio file not found after download'')))
          = artifact_missing d)
       \<and> (artifact_missing d \<longrightarrow>
            store (snd (handle_transcribe_url env st url language)) = store st
            \<and> whisper_model (snd (handle_transcribe_url env st url language)) = whisper_model st
            \<and> log (snd (handle_transcribe_url env st url language))
                = log st @ [Probe url, Download url (temp_audio_path env)])
       \<and> (\<not> artifact_missing d \<and> (whisper_model st \<or> load_model env = None) \<longrightarrow>
            (\<exists>evs. log (snd (handle_transcribe_url env st url language))
               = log st @ [Probe url, Download url (temp_audio_path env),
                   Transcribe (path_join (temp_dir_path env)
                      (ename (hd (filter (\<lambda>f. matches_audio_mp3 (ename f)) d))))
                     (if resolve_language env language \<noteq> lit ''auto''
                      then Some (resolve_language env language) else None)] @ evs))
       \<and> (\<forall>n. matches_audio_mp3 n = (\<exists>m. n = lit ''audio_'' @ m @ lit ''.mp3''))"
proof -
  let ?st0 = "st\<lparr>log := log st @ [Probe url]\<rparr>"
  have dl: "downloader env url (temp_audio_path env) (temp_dir ?st0) = (Completed 0 out, d)"
    using assms by simp
  note b = body_artifact [OF dl, of "resolve_language env language" "detect_platform env url"
      "info_title (fst (get_video_info env st url))" "info_duration (fst (get_video_info env st url))"]
  have c1: "(fst (handle_transcribe_url env st url language)
             = Inr (error_result (lit ''Audio file not found after download'')))
          = artifact_missing d"
    unfolding handle_eq run_eq by (rule b(1))
  have c2: "artifact_missing d \<longrightarrow>
            store (snd (handle_transcribe_url env st url language)) = store st
            \<and> whisper_model (snd (handle_transcribe_url env st url language)) = whisper_model st
            \<and> log (snd (handle_transcribe_url env st url language))
                = log st @ [Probe url, Download url (temp_audio_path env)]"
    unfolding handle_eq run_eq using b(2) by simp
  have c3: "\<not> artifact_missing d \<and> (whisper_model st \<or> load_model env = None) \<longrightarrow>
            (\<exists>evs. log (snd (handle_transcribe_url env st url language))
               = log st @ [Probe url, Download url (temp_audio_path env),
                   Transcribe (path_join (temp_dir_path env)
                      (ename (hd (filter (\<lambda>f. matches_audio_mp3 (ename f)) d))))
                     (if resolve_language env language \<noteq> lit ''auto''
                      then Some (resolve_language env language) else None)] @ evs)"
    unfolding handle_eq run_eq using b(3) by simp
  have c4: "\<forall>n. matches_audio_mp3 n = (\<exists>m. n = lit ''audio_'' @ m @ lit ''.mp3'')"
    using matches_audio_mp3_iff by blast
  from c1 c2 c3 c4 show ?thesis by (intro conjI)
qed

theorem transcribe_url_artifact_lookup_witness:
  "downloader (example_env\<lparr>downloader := renaming_downloader\<rparr>) example_url
      (temp_audio_path (example_env\<lparr>downloader := renaming_downloader\<rparr>)) (temp_dir example_state)
   = (Completed 0 [],
      [\<lparr>ename = lit ''audio_old.part'', present = True, removable = False\<rparr>,
       \<lparr>ename = lit ''notes.md'', present = True, removable = True\<rparr>,
       \<lparr>ename = lit ''audio_20240101_120000.m4a'', present = True, removable = True\<rparr>])
   \<and> artifact_missing
       [\<lparr>ename = lit ''audio_old.part'', present = True, removable = False\<rparr>,
        \<lparr>ename = lit ''notes.md'', present = True, removable = True\<rparr>,
        \<lparr>ename = lit ''audio_20240101_120000.m4a'', present = True, removable = True\<rparr>]
   \<and> fst (handle_transcribe_url (example_env\<lparr>downloader := renaming_downloader\<rparr>)
            example_state example_url None)
       = Inr (error_result (lit ''Audio file not found after download''))
   \<and> log (snd (handle_transcribe_url (example_env\<lparr>downloader := renaming_downloader\<rparr>)
            example_state example_url None))
       = log example_state @ [Probe example_url,
            Download example_url (temp_audio_path (example_env\<lparr>downloader := renaming_downloader\<rparr>))]
   \<and> downloader example_env example_url (temp_audio_path example_env) (temp_dir example_state)
       = (Completed 0 [],
          [\<lparr>ename = lit ''audio_old.part'', present = True, removable = False\<rparr>,
           \<lparr>ename = lit ''notes.md'', present = True, removable = True\<rparr>,
           \<lparr>ename = lit ''audio_20240101_120000.mp3'', present = True, removable = True\<rparr>])
   \<and> \<not> artifact_missing
       [\<lparr>ename = lit ''audio_old.part'', present = True, removable = False\<rparr>,
        \<lparr>ename = lit ''notes.md'', present = True, removable = True\<rparr>,
        \<lparr>ename = lit ''audio_20240101_120000.mp3'', present = True, removable = True\<rparr>]
   \<and> load_model example_env = None
   \<and> fst (handle_transcribe_url example_env example_state example_url None)
       \<noteq> Inr (error_result (lit ''Audio file not found after download''))
   \<and> (\<exists>evs. log (snd (handle_transcribe_url example_env example_state example_url None))
         = log example_state @ [Probe example_url, Download example_url (temp_audio_path example_env),
             Transcribe (lit ''/srv/app/temp/audio_20240101_120000.mp3'') (Some (lit ''ru''))] @ evs)"
proof -
  let ?env = "example_env\<lparr>downloader := renaming_downloader\<rparr>"
  let ?d1 = "[\<lparr>ename = lit ''audio_old.part'', present = True, removable = False\<rparr>,
       \<lparr>ename = lit ''notes.md'', present = True, removable = True\<rparr>,
       \<lparr>ename = lit ''audio_20240101_120000.m4a'', present = True, removable = True\<rparr>]"
  let ?d2 = "[\<lparr>ename = lit ''audio_old.part'', present = True, removable = False\<rparr>,
       \<lparr>ename = lit ''notes.md'', present = True, removable = True\<rparr>,
       \<lparr>ename = lit ''audio_20240101_120000.mp3'', present = True, removable = True\<rparr>]"
  have h2: "downloader example_env example_url (temp_audio_path example_env) (temp_dir example_state)
       = (Completed 0 [], ?d2)"
    by (simp add: example_env_def example_state_def)
  have f2: "filter (\<lambda>f. matches_audio_mp3 (ename f)) ?d2
      = [\<lparr>ename = lit ''audio_20240101_120000.mp3'', present = True, removable = True\<rparr>]"
    by (simp add: matches_audio_mp3_def startswith_def endswith_def lit_def)
  have m2: "\<not> artifact_missing ?d2"
    unfolding artifact_missing_def f2 by simp
  have lm: "load_model example_env = None" by (simp add: example_env_def)
  have rl: "resolve_language example_env None = lit ''ru''"
    by (simp add: resolve_language_def example_env_def)
  have na: "lit ''ru'' \<noteq> lit ''auto''" by (simp add: lit_def)
  have pj: "path_join (temp_dir_path example_env) (lit ''audio_20240101_120000.mp3'')
      = lit ''/srv/app/temp/audio_20240101_120000.mp3''"
    by (simp add: path_join_def endswith_def example_env_def lit_def)
  note t1 = transcribe_url_artifact_lookup [OF renamed_run, of None]
  note t2 = transcribe_url_artifact_lookup [OF h2, of None]
  have a1: "fst (handle_transcribe_url ?env example_state example_url None)
       = Inr (error_result (lit ''Audio file not found after download''))"
    using t1 renamed_missing by blast
  have a2: "log (snd (handle_transcribe_url ?env example_state example_url None))
       = log example_state @ [Probe example_url, Download example_url (temp_audio_path ?env)]"
    using t1 renamed_missing by blast
  have b1: "fst (handle_transcribe_url example_env example_state example_url None)
       \<noteq> Inr (error_result (lit ''Audio file not found after download''))"
    using t2 m2 by blast
  have "\<exists>evs. log (snd (handle_transcribe_url example_env example_state example_url None))
         = log example_state @ [Probe example_url, Download example_url (temp_audio_path example_env),
             Transcribe (path_join (temp_dir_path example_env)
                      (ename (hd (filter (\<lambda>f. matches_audio_mp3 (ename f)) ?d2))))
                     (if resolve_language example_env None \<noteq> lit ''auto''
                      then Some (resolve_language example_env None) else None)] @ evs"
    using t2 m2 lm by blast
  then have b2: "\<exists>evs. log (snd (handle_transcribe_url example_env example_state example_url None))
         = log example_state @ [Probe example_url, Download example_url (temp_audio_path example_env),
             Transcribe (lit ''/srv/app/temp/audio_20240101_120000.mp3'') (Some (lit ''ru''))] @ evs"
    unfolding f2 rl using na pj by simp
  from renamed_run renamed_missing a1 a2 h2 m2 lm b1 b2 show ?thesis by (intro conjI)
qed

text \<open>
  The claim as stated fails: a downloader that exits with status 0 and leaves the audio
  as \<open>audio_20240101_120000.m4a\<close>, the job's name with another extension, gets the
  error although that file is in the temp directory.
\<close>

theorem transcribe_url_other_extension_counterexample:
  "fst (downloader (example_env\<lparr>downloader := renaming_downloader\<rparr>) example_url
          (temp_audio_path (example_env\<lparr>downloader := renaming_downloader\<rparr>))
          (temp_dir example_state)) = Completed 0 []
   \<and> \<lparr>ename = lit ''audio_20240101_120000.m4a'', present = True, removable = True\<rparr>
       \<in> set (snd (downloader (example_env\<lparr>downloader := renaming_downloader\<rparr>) example_url
                 (temp_audio_path (example_env\<lparr>downloader := renaming_downloader\<rparr>))
                 (temp_dir example_state)))
   \<and> temp_audio_path (example_env\<lparr>downloader := renaming_downloader\<rparr>)
       = lit ''/srv/app/temp/audio_20240101_120000.mp3''
   \<and> fst (handle_transcribe_url (example_env\<lparr>downloader := renaming_downloader\<rparr>)
            example_state example_url None)
       = Inr (VDict [(lit ''error'', VStr (lit ''Audio file not found after download''))])"
proof -
  let ?env = "example_env\<lparr>downloader := renaming_downloader\<rparr>"
  have p: "temp_audio_path ?env = lit ''/srv/app/temp/audio_20240101_120000.mp3''"
    by (simp add: temp_audio_path_def path_join_def endswith_def example_env_def lit_def)
  have "fst (handle_transcribe_url ?env example_state example_url None)
       = Inr (error_result (lit ''Audio file not found after download''))"
    unfolding handle_eq run_eq
    using body_artifact(1) [of ?env example_url "temp_audio_path ?env"
        "example_state\<lparr>log := log example_state @ [Probe example_url]\<rparr>"] renamed_run renamed_missing
    by simp
  then have e: "fst (handle_transcribe_url ?env example_state example_url None)
       = Inr (VDict [(lit ''error'', VStr (lit ''Audio file not found after download''))])"
    by (simp add: error_result_def)
  have r1: "fst (downloader ?env example_url (temp_audio_path ?env) (temp_dir example_state))
       = Completed 0 []"
    unfolding renamed_run by simp
  have r2: "\<lparr>ename = lit ''audio_20240101_120000.m4a'', present = True, removable = True\<rparr>
       \<in> set (snd (downloader ?env example_url (temp_audio_path ?env) (temp_dir example_state)))"
    unfolding renamed_run by simp
  from r1 r2 p e show ?thesis by (intro conjI)
qed

subsection \<open>File flow: missing path\<close>

text \<open>
  Claim C7. When the home-expanded path of a file job does not exist,
  \<open>transcribe_file\<close> returns exactly the dictionary with the one key \<open>error\<close> and
  the message "File not found: " followed by the path as it was given, and leaves the
  state as it was: no call of the engine, no transcript written.
\<close>

theorem transcribe_file_not_found:
  assumes "expanduser env file_path = Inr path" and "\<not> path_exists env path"
  shows "handle_transcribe_file env st file_path language
           = (Inr (error_result (lit ''File not found: '' @ file_path)), st)"
  using assms by (simp add: handle_transcribe_file_def Let_def)

theorem transcribe_file_not_found_witness:
  "expanduser example_env (lit ''/data/talk.mp3'') = Inr (lit ''/data/talk.mp3'')
   \<and> \<not> path_exists example_env (lit ''/data/talk.mp3'')
   \<and> handle_transcribe_file example_env example_state (lit ''/data/talk.mp3'') None
       = (Inr (VDict [(lit ''error'', VStr (lit ''File not found: /data/talk.mp3''))]), example_state)"
proof -
  have h1: "expanduser example_env (lit ''/data/talk.mp3'') = Inr (lit ''/data/talk.mp3'')"
    by (simp add: example_env_def)
  have h2: "\<not> path_exists example_env (lit ''/data/talk.mp3'')"
    by (simp add: example_env_def)
  show ?thesis
    using h1 h2 transcribe_file_not_found [OF h1 h2, of example_state None]
    by (simp add: error_result_def lit_def)
qed

subsection \<open>Listing the transcripts\<close>

lemma sorted_reverse_mset: "mset (sorted_reverse fs) = mset fs"
  by (simp add: sorted_reverse_def)

lemma sorted_reverse_descending: "sorted (rev (map fname (sorted_reverse fs)))"
  by (simp add: sorted_reverse_def rev_map)

lemma sorted_reverse_split:
  assumes "a \<in> set (take k (sorted_reverse fs))" and "b \<in> set (drop k (sorted_reverse fs))"
  shows "fname b \<le> fname a"
proof -
  let ?S = "sorted_reverse fs"
  have "rev (map fname ?S) = map fname (rev (drop k ?S)) @ map fname (rev (take k ?S))"
    by (metis append_take_drop_id map_append rev_append rev_map)
  then have "sorted (map fname (rev (drop k ?S)) @ map fname (rev (take k ?S)))"
    using sorted_reverse_descending [of fs] by simp
  then have "\<forall>x \<in> set (map fname (rev (drop k ?S))). \<forall>y \<in> set (map fname (rev (take k ?S))). x \<le> y"
    by (simp add: sorted_append)
  then show ?thesis using assms by auto
qed

lemma length_sorted_reverse [simp]: "length (sorted_reverse fs) = length fs"
  by (simp add: sorted_reverse_def)

lemma size_kb_tenths_nearest:
  "\<bar>int (1024 * size_kb_tenths n) - int (10 * n)\<bar> \<le> 512"
proof -
  define q where "q = (n * 10) div 1024"
  define r where "r = (n * 10) mod 1024"
  have e: "n * 10 = 1024 * q + r"
    unfolding q_def r_def by (rule mult_div_mod_eq [symmetric])
  have r: "r < 1024" unfolding r_def by (rule mod_less_divisor) simp
  have "size_kb_tenths n
        = (if r < 512 then q else if r > 512 then q + 1 else if even q then q else q + 1)"
    unfolding size_kb_tenths_def Let_def q_def r_def by (rule refl)
  then show ?thesis using e r by auto
qed

lemma path_join_absolute:
  assumes "startswith (lit ''/'') d"
  shows "startswith (lit ''/'') (path_join d n)"
proof -
  from assms obtain ds where d: "d = 47 # ds"
    by (cases d) (auto simp: startswith_def lit_def)
  then show ?thesis
    by (simp add: path_join_def startswith_def lit_def)
qed

lemma example_store_sorted:
  "sorted_reverse (filter (\<lambda>f. matches_txt (fname f)) example_store)
   = [\<lparr>fname = lit ''e.txt'', body = replicate 1536 0x41, mtime = 5\<rparr>,
      \<lparr>fname = lit ''d.txt'', body = replicate 100 0x41, mtime = 4\<rparr>,
      \<lparr>fname = lit ''c.txt'', body = replicate 256 0x41, mtime = 3\<rparr>,
      \<lparr>fname = lit ''b.txt'', body = [0x41, 0x42], mtime = 2\<rparr>,
      \<lparr>fname = lit ''a.txt'', body = [], mtime = 1\<rparr>]"
  by (simp add: sorted_reverse_def example_store_def matches_txt_def endswith_def lit_def)

lemma example_sizes:
  "size_kb_tenths 1536 = 15" "size_kb_tenths 100 = 1" "size_kb_tenths 256 = 2"
  by (simp_all add: size_kb_tenths_def Let_def)

text \<open>
  Claim C9, as the code has it. For a limit that is not negative, \<open>list_transcripts\<close>
  returns the files named \<open>*.txt\<close> in descending order of their names (compared code
  point by code point), cut to the first \<open>limit\<close> of them: the count is the smaller of
  the limit and the number of files, no returned name is below a name left out, and each
  entry carries the file name, the path of the file under the configured transcript
  directory (absolute whenever that directory is, as the default is), the size in
  kilobytes as the nearest tenth, and the formatted modification time. With limit 2 over
  five transcripts the result is the two largest names, largest first.
\<close>

theorem list_transcripts_newest_first_capped:
  assumes "0 \<le> limit"
  shows "handle_list_transcripts env st limit
           = VDict [(lit ''transcripts_dir'', VStr (transcripts_dir env)),
                    (lit ''count'',
                       VInt (int (length (take (nat limit)
                          (sorted_reverse (filter (\<lambda>f. matches_txt (fname f)) (store st))))))),
                    (lit ''files'',
                       VList (map (\<lambda>f. VDict
                                 [(lit ''filename'', VStr (fname f)),
                                  (lit ''path'', VStr (path_join (transcripts_dir env) (fname f))),
                                  (lit ''size_kb'', VTenths (size_kb_tenths (length (body f)))),
                                  (lit ''modified'', VStr (fmt_mtime env (mtime f)))])
                          (take (nat limit)
                             (sorted_reverse (filter (\<lambda>f. matches_txt (fname f)) (store st))))))]
         \<and> length (take (nat limit) (sorted_reverse (filter (\<lambda>f. matches_txt (fname f)) (store st))))
             = min (nat limit) (length (filter (\<lambda>f. matches_txt (fname f)) (store st)))
         \<and> mset (sorted_reverse (filter (\<lambda>f. matches_txt (fname f)) (store st)))
             = mset (filter (\<lambda>f. matches_txt (fname f)) (store st))
         \<and> sorted (rev (map fname (sorted_reverse (filter (\<lambda>f. matches_txt (fname f)) (store st)))))
         \<and> (\<forall>a \<in> set (take (nat limit)
                         (sorted_reverse (filter (\<lambda>f. matches_txt (fname f)) (store st)))).
             \<forall>b \<in> set (drop (nat limit)
                         (sorted_reverse (filter (\<lambda>f. matches_txt (fname f)) (store st)))).
               fname b \<le> fname a)
         \<and> (\<forall>n. \<bar>int (1024 * size_kb_tenths n) - int (10 * n)\<bar> \<le> 512)
         \<and> (\<forall>n. startswith (lit ''/'') (transcripts_dir env)
                \<longrightarrow> startswith (lit ''/'') (path_join (transcripts_dir env) n))"
proof -
  let ?M = "filter (\<lambda>f. matches_txt (fname f)) (store st)"
  have c1: "handle_list_transcripts env st limit
           = VDict [(lit ''transcripts_dir'', VStr (transcripts_dir env)),
                    (lit ''count'', VInt (int (length (take (nat limit) (sorted_reverse ?M))))),
                    (lit ''files'',
                       VList (map (\<lambda>f. VDict
                                 [(lit ''filename'', VStr (fname f)),
                                  (lit ''path'', VStr (path_join (transcripts_dir env) (fname f))),
                                  (lit ''size_kb'', VTenths (size_kb_tenths (length (body f)))),
                                  (lit ''modified'', VStr (fmt_mtime env (mtime f)))])
                          (take (nat limit) (sorted_reverse ?M))))]"
    using assms
    by (simp add: handle_list_transcripts_def slice_to_def Let_def transcript_entry_def [abs_def])
  have c2: "length (take (nat limit) (sorted_reverse ?M)) = min (nat limit) (length ?M)"
    by (simp add: min.commute)
  have c5: "\<forall>a \<in> set (take (nat limit) (sorted_reverse ?M)).
             \<forall>b \<in> set (drop (nat limit) (sorted_reverse ?M)). fname b \<le> fname a"
    using sorted_reverse_split by blast
  have c6: "\<forall>n. \<bar>int (1024 * size_kb_tenths n) - int (10 * n)\<bar> \<le> 512"
    using size_kb_tenths_nearest by blast
  have c7: "\<forall>n. startswith (lit ''/'') (transcripts_dir env)
                \<longrightarrow> startswith (lit ''/'') (path_join (transcripts_dir env) n)"
    using path_join_absolute by blast
  from c1 c2 sorted_reverse_mset [of ?M] sorted_reverse_descending [of ?M] c5 c6 c7
  show ?thesis by (intro conjI)
qed

theorem list_transcripts_newest_first_capped_witness:
  "(0::int) \<le> 2
   \<and> handle_list_transcripts example_env (example_state\<lparr>store := example_store\<rparr>) 2
       = VDict [(lit ''transcripts_dir'', VStr (lit ''/home/u/Documents/Transcripts'')),
                (lit ''count'', VInt 2),
                (lit ''files'',
                   VList [VDict [(lit ''filename'', VStr (lit ''e.txt'')),
                                 (lit ''path'', VStr (lit ''/home/u/Documents/Transcripts/e.txt'')),
                                 (lit ''size_kb'', VTenths 15),
                                 (lit ''modified'', VStr (lit ''2024-01-01 12:00''))],
                          VDict [(lit ''filename'', VStr (lit ''d.txt'')),
                                 (lit ''path'', VStr (lit ''/home/u/Documents/Transcripts/d.txt'')),
                                 (lit ''size_kb'', VTenths 1),
                                 (lit ''modified'', VStr (lit ''2024-01-01 12:00''))]])]
   \<and> startswith (lit ''/'') (transcripts_dir example_env)
   \<and> startswith (lit ''/'') (path_join (transcripts_dir example_env) (lit ''e.txt''))"
proof -
  have h: "(0::int) \<le> 2" by simp
  have pj: "path_join (lit ''/home/u/Documents/Transcripts'') (lit ''e.txt'')
              = lit ''/home/u/Documents/Transcripts/e.txt''"
    "path_join (lit ''/home/u/Documents/Transcripts'') (lit ''d.txt'')
              = lit ''/home/u/Documents/Transcripts/d.txt''"
    by (simp_all add: path_join_def endswith_def lit_def)
  have ev: "transcripts_dir example_env = lit ''/home/u/Documents/Transcripts''"
    "fmt_mtime example_env = (\<lambda>t. lit ''2024-01-01 12:00'')"
    by (simp_all add: example_env_def)
  have ab: "startswith (lit ''/'') (transcripts_dir example_env)"
    by (simp add: example_env_def startswith_def lit_def)
  note t = list_transcripts_newest_first_capped
             [OF h, of example_env "example_state\<lparr>store := example_store\<rparr>"]
  from t have "\<forall>n. startswith (lit ''/'') (transcripts_dir example_env)
                \<longrightarrow> startswith (lit ''/'') (path_join (transcripts_dir example_env) n)"
    by (elim conjE)
  then have "startswith (lit ''/'') (transcripts_dir example_env)
                \<longrightarrow> startswith (lit ''/'')
                      (path_join (transcripts_dir example_env) (lit ''e.txt''))"
    by (rule spec)
  from this ab have ap: "startswith (lit ''/'')
                      (path_join (transcripts_dir example_env) (lit ''e.txt''))"
    by (rule mp)
  have r: "handle_list_transcripts example_env (example_state\<lparr>store := example_store\<rparr>) 2
       = VDict [(lit ''transcripts_dir'', VStr (lit ''/home/u/Documents/Transcripts'')),
                (lit ''count'', VInt 2),
                (lit ''files'',
                   VList [VDict [(lit ''filename'', VStr (lit ''e.txt'')),
                                 (lit ''path'', VStr (lit ''/home/u/Documents/Transcripts/e.txt'')),
                                 (lit ''size_kb'', VTenths 15),
                                 (lit ''modified'', VStr (lit ''2024-01-01 12:00''))],
                          VDict [(lit ''filename'', VStr (lit ''d.txt'')),
                                 (lit ''path'', VStr (lit ''/home/u/Documents/Transcripts/d.txt'')),
                                 (lit ''size_kb'', VTenths 1),
                                 (lit ''modified'', VStr (lit ''2024-01-01 12:00''))]])]"
    using t by (simp add: example_store_sorted ev pj example_sizes)
  from h r ab ap show ?thesis by (intro conjI)
qed

text \<open>
  The claim as stated, with an absolute path in every entry, fails: the transcript
  directory is the configured path with only the home directory expanded, and with the
  relative directory \<open>out\<close> the path of an entry is the relative \<open>out/e.txt\<close>.
\<close>

theorem list_transcripts_relative_path_counterexample:
  "handle_list_transcripts (example_env\<lparr>transcripts_dir := lit ''out''\<rparr>)
     (example_state\<lparr>store := example_store\<rparr>) 1
     = VDict [(lit ''transcripts_dir'', VStr (lit ''out'')),
              (lit ''count'', VInt 1),
              (lit ''files'',
                 VList [VDict [(lit ''filename'', VStr (lit ''e.txt'')),
                               (lit ''path'', VStr (lit ''out/e.txt'')),
                               (lit ''size_kb'', VTenths 15),
                               (lit ''modified'', VStr (lit ''2024-01-01 12:00''))]])]
   \<and> \<not> startswith (lit ''/'') (lit ''out/e.txt'')"
proof -
  have pj: "path_join (lit ''out'') (lit ''e.txt'') = lit ''out/e.txt''"
    by (simp add: path_join_def endswith_def lit_def)
  have ev: "fmt_mtime example_env = (\<lambda>t. lit ''2024-01-01 12:00'')"
    by (simp add: example_env_def)
  have r: "handle_list_transcripts (example_env\<lparr>transcripts_dir := lit ''out''\<rparr>)
     (example_state\<lparr>store := example_store\<rparr>) 1
     = VDict [(lit ''transcripts_dir'', VStr (lit ''out'')),
              (lit ''count'', VInt 1),
              (lit ''files'',
                 VList [VDict [(lit ''filename'', VStr (lit ''e.txt'')),
                               (lit ''path'', VStr (lit ''out/e.txt'')),
                               (lit ''size_kb'', VTenths 15),
                               (lit ''modified'', VStr (lit ''2024-01-01 12:00''))]])]"
    by (simp add: handle_list_transcripts_def slice_to_def Let_def transcript_entry_def
        example_store_sorted pj ev example_sizes)
  have n: "\<not> startswith (lit ''/'') (lit ''out/e.txt'')"
    by (simp add: startswith_def lit_def)
  from r n show ?thesis by (intro conjI)
qed

text \<open>
  Claim C10. For a negative limit \<open>n\<close> the slice \<open>[:n]\<close> drops the last \<open>|n|\<close>
  files of the descending list: \<open>list_transcripts\<close> returns without error all
  transcripts except the \<open>|n|\<close> smallest names (none when there are no more than
  \<open>|n|\<close>), so the number returned is the number of transcripts less \<open>|n|\<close> and is
  not capped by \<open>|n|\<close>: it exceeds \<open>|n|\<close> as soon as the store holds more than twice
  as many. For every limit the count field is the number of entries returned.
\<close>

theorem list_transcripts_negative_limit:
  assumes "limit < 0"
  shows "handle_list_transcripts env st limit
           = VDict [(lit ''transcripts_dir'', VStr (transcripts_dir env)),
                    (lit ''count'',
                       VInt (int (length (rev (drop (nat (- limit))
                          (sort_key fname (rev (filter (\<lambda>f. matches_txt (fname f)) (store st))))))))),
                    (lit ''files'',
                       VList (map (transcript_entry env)
                          (rev (drop (nat (- limit))
                             (sort_key fname (rev (filter (\<lambda>f. matches_txt (fname f)) (store st))))))))]
         \<and> length (rev (drop (nat (- limit))
                (sort_key fname (rev (filter (\<lambda>f. matches_txt (fname f)) (store st))))))
             = length (filter (\<lambda>f. matches_txt (fname f)) (store st)) - nat (- limit)
         \<and> (2 * nat (- limit) < length (filter (\<lambda>f. matches_txt (fname f)) (store st))
              \<longrightarrow> nat (- limit)
                  < length (rev (drop (nat (- limit))
                      (sort_key fname (rev (filter (\<lambda>f. matches_txt (fname f)) (store st)))))))
         \<and> mset (rev (drop (nat (- limit))
                  (sort_key fname (rev (filter (\<lambda>f. matches_txt (fname f)) (store st))))))
             + mset (take (nat (- limit))
                  (sort_key fname (rev (filter (\<lambda>f. matches_txt (fname f)) (store st)))))
             = mset (filter (\<lambda>f. matches_txt (fname f)) (store st))
         \<and> length (take (nat (- limit))
                  (sort_key fname (rev (filter (\<lambda>f. matches_txt (fname f)) (store st)))))
             = min (nat (- limit)) (length (filter (\<lambda>f. matches_txt (fname f)) (store st)))
         \<and> sorted (map fname (sort_key fname (rev (filter (\<lambda>f. matches_txt (fname f)) (store st)))))
         \<and> (\<forall>a \<in> set (rev (drop (nat (- limit))
                  (sort_key fname (rev (filter (\<lambda>f. matches_txt (fname f)) (store st)))))).
             \<forall>b \<in> set (take (nat (- limit))
                  (sort_key fname (rev (filter (\<lambda>f. matches_txt (fname f)) (store st))))).
               fname b \<le> fname a)
         \<and> (\<forall>k. \<exists>fs. handle_list_transcripts env st k
                = VDict [(lit ''transcripts_dir'', VStr (transcripts_dir env)),
                         (lit ''count'', VInt (int (length fs))),
                         (lit ''files'', VList fs)])"
proof -
  let ?M = "filter (\<lambda>f. matches_txt (fname f)) (store st)"
  let ?S = "sort_key fname (rev ?M)"
  let ?n = "nat (- limit)"
  have sl: "slice_to limit (sorted_reverse ?M) = rev (drop ?n ?S)"
  proof -
    have "nat (int (length ?M) + limit) = length ?S - ?n" using assms by simp
    then show ?thesis using assms
      by (simp add: slice_to_def sorted_reverse_def rev_drop)
  qed
  have c1: "handle_list_transcripts env st limit
           = VDict [(lit ''transcripts_dir'', VStr (transcripts_dir env)),
                    (lit ''count'', VInt (int (length (rev (drop ?n ?S))))),
                    (lit ''files'', VList (map (transcript_entry env) (rev (drop ?n ?S))))]"
    unfolding handle_list_transcripts_def Let_def sl by simp
  have c2: "length (rev (drop ?n ?S)) = length ?M - ?n" by simp
  have c3: "2 * ?n < length ?M \<longrightarrow> ?n < length (rev (drop ?n ?S))" by auto
  have "mset (drop ?n ?S) + mset (take ?n ?S) = mset ?S"
    using mset_append [of "take ?n ?S" "drop ?n ?S"]
    unfolding append_take_drop_id by (simp only: add.commute)
  then have c4: "mset (rev (drop ?n ?S)) + mset (take ?n ?S) = mset ?M" by simp
  have c5: "length (take ?n ?S) = min ?n (length ?M)" by (simp add: min.commute)
  have c6: "sorted (map fname ?S)" by simp
  have "sorted (map fname (take ?n ?S) @ map fname (drop ?n ?S))"
    unfolding map_append [symmetric] append_take_drop_id by (rule c6)
  then have c7: "\<forall>a \<in> set (rev (drop ?n ?S)). \<forall>b \<in> set (take ?n ?S). fname b \<le> fname a"
    by (auto simp: sorted_append)
  have c8: "\<forall>k. \<exists>fs. handle_list_transcripts env st k
                = VDict [(lit ''transcripts_dir'', VStr (transcripts_dir env)),
                         (lit ''count'', VInt (int (length fs))),
                         (lit ''files'', VList fs)]"
    by (simp add: handle_list_transcripts_def Let_def)
  from c1 c2 c3 c4 c5 c6 c7 c8 show ?thesis by (intro conjI)
qed

theorem list_transcripts_negative_limit_witness:
  "(- 2 :: int) < 0
   \<and> handle_list_transcripts example_env (example_state\<lparr>store := example_store\<rparr>) (- 2)
       = VDict [(lit ''transcripts_dir'', VStr (lit ''/home/u/Documents/Transcripts'')),
                (lit ''count'', VInt 3),
                (lit ''files'',
                   VList (map (transcript_entry example_env)
                     [\<lparr>fname = lit ''e.txt'', body = replicate 1536 0x41, mtime = 5\<rparr>,
                      \<lparr>fname = lit ''d.txt'', body = replicate 100 0x41, mtime = 4\<rparr>,
                      \<lparr>fname = lit ''c.txt'', body = replicate 256 0x41, mtime = 3\<rparr>]))]
   \<and> 2 * nat (- (- 2)) < length (filter (\<lambda>f. matches_txt (fname f)) example_store)"
proof -
  have h: "(- 2 :: int) < 0" by simp
  have ev: "transcripts_dir example_env = lit ''/home/u/Documents/Transcripts''"
    by (simp add: example_env_def)
  have srt: "sort_key fname (rev (filter (\<lambda>f. matches_txt (fname f)) example_store))
   = [\<lparr>fname = lit ''a.txt'', body = [], mtime = 1\<rparr>,
      \<lparr>fname = lit ''b.txt'', body = [0x41, 0x42], mtime = 2\<rparr>,
      \<lparr>fname = lit ''c.txt'', body = replicate 256 0x41, mtime = 3\<rparr>,
      \<lparr>fname = lit ''d.txt'', body = replicate 100 0x41, mtime = 4\<rparr>,
      \<lparr>fname = lit ''e.txt'', body = replicate 1536 0x41, mtime = 5\<rparr>]"
    by (simp add: example_store_def matches_txt_def endswith_def lit_def)
  have len: "2 * nat (- (- 2)) < length (filter (\<lambda>f. matches_txt (fname f)) example_store)"
    by (simp add: example_store_def matches_txt_def endswith_def lit_def)
  have "handle_list_transcripts example_env (example_state\<lparr>store := example_store\<rparr>) (- 2)
       = VDict [(lit ''transcripts_dir'', VStr (lit ''/home/u/Documents/Transcripts'')),
                (lit ''count'', VInt 3),
                (lit ''files'',
                   VList (map (transcript_entry example_env)
                     [\<lparr>fname = lit ''e.txt'', body = replicate 1536 0x41, mtime = 5\<rparr>,
                      \<lparr>fname = lit ''d.txt'', body = replicate 100 0x41, mtime = 4\<rparr>,
                      \<lparr>fname = lit ''c.txt'', body = replicate 256 0x41, mtime = 3\<rparr>]))]"
    using list_transcripts_negative_limit [OF h, of example_env "example_state\<lparr>store := example_store\<rparr>"]
    by (simp add: srt ev)
  with h len show ?thesis by (intro conjI)
qed

subsection \<open>The transcript file\<close>

lemma utf8_encode_Nil [simp]: "utf8_encode [] = Some []"
  by (simp add: utf8_encode_def)




lemma encodable_append [simp]: "encodable (a @ b) = (encodable a \<and> encodable b)"
  by (simp add: encodable_def)
























text \<open>
  Nor is a file written for every title UTF-8 can encode: when \<open>open\<close> refuses the name,
  \<open>save_transcript\<close> raises and the directory is as before. A title holding a NUL and
  a title of 76 characters of three bytes each (a name of 256 bytes) are such titles.
\<close>

lemma save_transcript_open_refused:
  assumes "open_write env (now_file env @ lit ''_'' @ platform @ lit ''_'' @ sanitize_filename title
             @ lit ''.txt'') = Some e"
  shows "save_transcript env st url platform title duration segments language
           = (Inl e, st\<lparr>log := log st @ [Write (now_file env @ lit ''_'' @ platform @ lit ''_''
                                              @ sanitize_filename title @ lit ''.txt'')]\<rparr>)"
  using assms by (simp add: save_transcript_def write_text_def Let_def)

lemma fsencode_Nil [simp]: "fsencode [] = Some []"
  by (simp add: fsencode_def)

lemma fsencode_Cons:
  "fsencode (c # s) =
     (case fs_char c of None \<Rightarrow> None
      | Some b \<Rightarrow> (case fsencode s of None \<Rightarrow> None | Some bs \<Rightarrow> Some (b @ bs)))"
  by (simp add: fsencode_def split: option.splits)

lemma fsencode_append:
  "fsencode (a @ b) =
     (case fsencode a of None \<Rightarrow> None
      | Some x \<Rightarrow> (case fsencode b of None \<Rightarrow> None | Some y \<Rightarrow> Some (x @ y)))"
  by (induction a) (simp_all add: fsencode_Cons split: option.splits)

lemma fsencode_replicate:
  "fs_char c = Some bs \<Longrightarrow> fsencode (replicate n c) = Some (concat (replicate n bs))"
  by (induction n) (simp_all add: fsencode_Cons)

lemma length_concat_replicate: "length (concat (replicate n bs)) = n * length bs"
  by (induction n) simp_all

lemma set_concat_replicate: "set (concat (replicate n bs)) \<subseteq> set bs"
  by (induction n) auto

lemma nul_title_refused:
  "encodable [0x41, 0, 0x42]
   \<and> save_transcript example_env example_state example_url (lit ''YouTube'') [0x41, 0, 0x42] 125
       example_spoken (lit ''ru'')
     = (Inl (Exn ''ValueError'' (lit ''cannot open file'')),
        example_state\<lparr>log := [Write (lit ''2024-01-01_1200_YouTube_'' @ [0x41, 0, 0x42]
                                         @ lit ''.txt'')]\<rparr>)"
proof -
  have t: "sanitize_filename [0x41, 0, 0x42] = [0x41, 0, 0x42]"
    by (simp add: sanitize_filename_def invalid_chars_def strip_def lstrip_def rstrip_def
        isspace_def)
  have o: "open_write example_env (now_file example_env @ lit ''_'' @ lit ''YouTube'' @ lit ''_''
             @ sanitize_filename [0x41, 0, 0x42] @ lit ''.txt'')
           = Some (Exn ''ValueError'' (lit ''cannot open file''))"
    unfolding t
    by (simp add: open_write_def fsencode_def fs_char_def utf8_char_def example_env_def lit_def)
  have e: "encodable [0x41, 0, 0x42]" by (simp add: encodable_def utf8_char_def)
  show ?thesis
    using e save_transcript_open_refused [OF o, of example_state example_url 125 example_spoken "lit ''ru''"]
    unfolding t by (simp add: example_env_def example_state_def lit_def)
qed

lemma long_title_refused:
  "encodable (replicate 76 0x65E5)
   \<and> save_transcript example_env example_state example_url (lit ''YouTube'') (replicate 76 0x65E5)
       125 example_spoken (lit ''ru'')
     = (Inl (Exn ''OSError'' (lit ''cannot open file'')),
        example_state\<lparr>log := [Write (lit ''2024-01-01_1200_YouTube_'' @ replicate 76 0x65E5
                                         @ lit ''.txt'')]\<rparr>)"
proof -
  have sp: "\<not> isspace 0x65E5" by (simp add: isspace_def)
  have iv: "0x65E5 \<notin> invalid_chars" by (simp add: invalid_chars_def)
  have t: "sanitize_filename (replicate 76 0x65E5) = replicate 76 0x65E5"
    using sp iv
    by (simp add: sanitize_filename_def filter_replicate strip_def lstrip_def rstrip_def)
  have c: "fs_char 0x65E5 = Some [0xE6, 0x97, 0xA5]"
    by (simp add: fs_char_def utf8_char_def)
  have pre: "fsencode (lit ''2024-01-01_1200_YouTube_'')
               = Some (lit ''2024-01-01_1200_YouTube_'')"
    by (simp add: fsencode_def fs_char_def utf8_char_def lit_def)
  have suf: "fsencode (lit ''.txt'') = Some (lit ''.txt'')"
    by (simp add: fsencode_def fs_char_def utf8_char_def lit_def)
  have nm: "now_file example_env @ lit ''_'' @ lit ''YouTube'' @ lit ''_''
             @ replicate 76 0x65E5 @ lit ''.txt''
            = lit ''2024-01-01_1200_YouTube_'' @ replicate 76 0x65E5 @ lit ''.txt''"
    by (simp add: example_env_def lit_def)
  have fe: "fsencode (lit ''2024-01-01_1200_YouTube_'' @ replicate 76 0x65E5 @ lit ''.txt'')
            = Some (lit ''2024-01-01_1200_YouTube_'' @ concat (replicate 76 [0xE6, 0x97, 0xA5])
                    @ lit ''.txt'')"
    by (simp add: fsencode_append pre suf fsencode_replicate [OF c])
  have z: "0 \<notin> set (lit ''2024-01-01_1200_YouTube_'' @ concat (replicate 76 [0xE6, 0x97, 0xA5])
                    @ lit ''.txt'')"
    using set_concat_replicate [of 76 "[0xE6, 0x97, 0xA5]"] by (auto simp: lit_def)
  have ln: "length (lit ''2024-01-01_1200_YouTube_'' @ concat (replicate 76 [0xE6, 0x97, 0xA5])
                    @ lit ''.txt'') = 256"
    by (simp add: length_concat_replicate lit_def)
  have o: "open_write example_env (now_file example_env @ lit ''_'' @ lit ''YouTube'' @ lit ''_''
             @ sanitize_filename (replicate 76 0x65E5) @ lit ''.txt'')
           = Some (Exn ''OSError'' (lit ''cannot open file''))"
    unfolding t nm open_write_def fe using z ln by (simp add: example_env_def)
  have e: "encodable (replicate 76 0x65E5)"
    by (simp add: encodable_def list_all_iff utf8_char_def)
  have lg: "log example_state = []" by (simp add: example_state_def)
  show ?thesis
    using e save_transcript_open_refused [OF o, of example_state example_url 125 example_spoken "lit ''ru''"]
    unfolding t nm lg by simp
qed

subsection \<open>Serialization of the outcome\<close>

lemma newline_indent_values:
  "newline_indent 0 = [0x0A]" "newline_indent (Suc 0) = [0x0A, 0x20, 0x20]"
  by (simp_all add: newline_indent_def numeral_2_eq_2)

lemmas dispatch_eval =
  handle_tool_call_def call_handler_def handle_transcribe_file_def transcribe_audio_def
  get_whisper_model_def resolve_language_def json_dumps_def error_result_def encode_str_def
  escape_char_def u_escape_def hexdigit_def newline_indent_values lit_def example_env_def
  example_state_def example_file_path_def raising_engine_def Let_def

text \<open>
  Claim C6 does not hold on the path where a handler raises. A call of
  \<open>transcribe_file\<close> on an existing file with a Cyrillic name, which the engine rejects
  with a message naming the path, is answered with the pretty-printed error in which
  every Cyrillic letter is written as a \<open>\uXXXX\<close> escape: the \<open>except\<close> branch calls
  \<open>json.dumps\<close> without \<open>ensure_ascii=False\<close>. On the sibling path that returns a
  result (here: the same path when it does not exist) the same letters are kept as they
  are.
\<close>

theorem dispatch_escapes_exception_text:
  "fst (handle_tool_call (example_env\<lparr>path_exists := \<lambda>p. True, engine := raising_engine\<rparr>)
          example_state (lit ''transcribe_file'')
          \<lparr>arg_url = None, arg_file_path = Some example_file_path, arg_language = None,
           arg_limit = None\<rparr>)
     = lit ''{'' @ [0x0A] @ lit ''  '' @ [0x22] @ lit ''error'' @ [0x22] @ lit '': '' @ [0x22]
       @ lit ''Invalid data found when processing input: /tmp/''
       @ [0x5C] @ lit ''u0437'' @ [0x5C] @ lit ''u0430'' @ [0x5C] @ lit ''u043f''
       @ [0x5C] @ lit ''u0438'' @ [0x5C] @ lit ''u0441'' @ [0x5C] @ lit ''u044c''
       @ lit ''.txt'' @ [0x22, 0x0A] @ lit ''}''
   \<and> fst (handle_tool_call example_env example_state (lit ''transcribe_file'')
          \<lparr>arg_url = None, arg_file_path = Some example_file_path, arg_language = None,
           arg_limit = None\<rparr>)
     = lit ''{'' @ [0x0A] @ lit ''  '' @ [0x22] @ lit ''error'' @ [0x22] @ lit '': '' @ [0x22]
       @ lit ''File not found: /tmp/'' @ [0x437, 0x430, 0x43F, 0x438, 0x441, 0x44C]
       @ lit ''.txt'' @ [0x22, 0x0A] @ lit ''}''"
  by (simp add: dispatch_eval)

end
